theory Spec2Isabelle
  imports Complex_Main "HOL-Library.AList"
begin

section \<open>Values shared by the modules\<close>

text \<open>
  Dates are JavaScript \<^verbatim>\<open>Date\<close> objects; a date is the integer \<^verbatim>\<open>getTime()\<close> returns,
  the milliseconds since the epoch.

  A thrown JavaScript exception is a value of type \<open>error\<close>; a function that can
  throw returns \<open>error + 'a\<close>, with \<open>Inl\<close> for the exception. A method that changes
  its object and can throw returns the pair of that sum and of the object after the
  call, so that what a call has changed before it throws is not lost.
\<close>

datatype error = TypeError | ReferenceError | Error string

type_synonym date = int

text \<open>
  A name that a file imports is bound to what the other file exports under that very
  name, and to \<^verbatim>\<open>undefined\<close> when the other file exports nothing under it. Calling
  \<^verbatim>\<open>undefined\<close>, and testing \<^verbatim>\<open>x instanceof undefined\<close>, throw a TypeError. Where a
  function of the model uses such a name, the name is a constant of type \<open>binding\<close>.
\<close>

datatype 'a binding = Undefined | Bound 'a

fun foldE :: "('a \<Rightarrow> 's \<Rightarrow> error + 's) \<Rightarrow> 'a list \<Rightarrow> 's \<Rightarrow> error + 's" where
  "foldE f [] s = Inr s"
| "foldE f (x # xs) s = (case f x s of Inl e \<Rightarrow> Inl e | Inr s' \<Rightarrow> foldE f xs s')"

subsection \<open>The arithmetic of decimal.js\<close>

text \<open>
  The ledger engine computes with \<^verbatim>\<open>decimal.js\<close> numbers. A finite Decimal is a
  rational number and is modelled as a \<^typ>\<open>rat\<close>. The library is used as it is
  configured by default: \<^verbatim>\<open>precision\<close> is 20 and \<^verbatim>\<open>rounding\<close> is \<^verbatim>\<open>ROUND_HALF_UP\<close>. The
  constructor keeps every digit it is given; \<^verbatim>\<open>plus\<close>, \<^verbatim>\<open>minus\<close>, \<^verbatim>\<open>times\<close> and \<^verbatim>\<open>div\<close>
  return the exact result rounded to 20 significant digits, to the nearest such number
  and away from zero when two are equally near (the library's \<^verbatim>\<open>finalise\<close>).

  \<open>digits n\<close> is the number of decimal digits of a positive integer, and \<open>exponent x\<close> is
  the exponent of the leading digit of a non-zero number \<open>x\<close>: ten to the power
  \<open>exponent x\<close> is at most \<open>|x|\<close>, and ten to the power \<open>exponent x + 1\<close> is more.
\<close>

function digits :: "int \<Rightarrow> int" where
  "digits n = (if n < 10 then 1 else 1 + digits (n div 10))"
  by pat_completeness auto

termination
  by (relation "measure nat") auto

declare digits.simps [simp del]

definition exponent :: "rat \<Rightarrow> int" where
  "exponent x =
     (if 1 \<le> \<bar>x\<bar> then digits \<lfloor>\<bar>x\<bar>\<rfloor> - 1 else - digits (\<lceil>1 / \<bar>x\<bar>\<rceil> - 1))"

definition precision :: int where
  "precision = 20"

definition finalise :: "rat \<Rightarrow> rat" where
  "finalise x =
     (if x = 0 then 0
      else let sd = precision - 1 - exponent x
           in (if x < 0 then - 1 else 1) * of_int \<lfloor>\<bar>x\<bar> * 10 powi sd + 1 / 2\<rfloor> / 10 powi sd)"

definition Decimal_plus :: "rat \<Rightarrow> rat \<Rightarrow> rat" where
  "Decimal_plus x y = finalise (x + y)"

definition Decimal_minus :: "rat \<Rightarrow> rat \<Rightarrow> rat" where
  "Decimal_minus x y = finalise (x - y)"

definition Decimal_times :: "rat \<Rightarrow> rat \<Rightarrow> rat" where
  "Decimal_times x y = finalise (x * y)"

text \<open>The divisor of \<open>Decimal_div\<close> is not zero wherever the model calls it.\<close>

definition Decimal_div :: "rat \<Rightarrow> rat \<Rightarrow> rat" where
  "Decimal_div x y = finalise (x / y)"

section \<open>core/amount.js: currency-tagged numbers\<close>

text \<open>
  The constructor of \<^verbatim>\<open>Amount\<close> stores a Decimal, \<^verbatim>\<open>null\<close> or the \<^verbatim>\<open>MISSING\<close>
  symbol and converts a JavaScript number or string to a Decimal; everything else is
  refused. So the \<^verbatim>\<open>number\<close> field of an Amount is a Decimal, \<^verbatim>\<open>MISSING\<close> or
  \<^verbatim>\<open>null\<close>. \<open>NonFinite\<close> stands for the Decimals \<^verbatim>\<open>Infinity\<close> and \<^verbatim>\<open>NaN\<close>, which
  \<^verbatim>\<open>decimal.js\<close> returns for a division by zero; no number read from a ledger is
  one of them. The model does not tell the two apart and takes an operation on one of
  them to give one of them again.
\<close>

datatype numval = Dec rat | NonFinite | MISSING | NULL

fun isDecimalInstance :: "numval \<Rightarrow> bool" where
  "isDecimalInstance (Dec _) = True"
| "isDecimalInstance NonFinite = True"
| "isDecimalInstance MISSING = False"
| "isDecimalInstance NULL = False"

record 'n Amount =
  number :: 'n
  currency :: string

text \<open>
  \<^verbatim>\<open>
  function add(amount1, amount2) {
    if (amount1.currency !== amount2.currency) { throw new Error(...); }
    return new Amount(
      amount1.number instanceof Decimal && amount2.number instanceof Decimal
        ? amount1.number.plus(amount2.number) : new Decimal(0),
      amount1.currency);
  }
  \<close>
  and \<^verbatim>\<open>sub\<close> alike with \<^verbatim>\<open>minus\<close>. The constructor receives a Decimal in both
  branches, so it does not throw.
\<close>

definition unmatching :: error where
  "unmatching = Error ''Unmatching currencies for operation''"

definition add :: "numval Amount \<Rightarrow> numval Amount \<Rightarrow> error + numval Amount" where
  "add amount1 amount2 =
     (if currency amount1 \<noteq> currency amount2 then Inl unmatching
      else Inr \<lparr>number = (case (number amount1, number amount2) of
                              (Dec a, Dec b) \<Rightarrow> Dec (Decimal_plus a b)
                            | (Dec a, NonFinite) \<Rightarrow> NonFinite
                            | (NonFinite, Dec b) \<Rightarrow> NonFinite
                            | (NonFinite, NonFinite) \<Rightarrow> NonFinite
                            | _ \<Rightarrow> Dec 0),
                 currency = currency amount1\<rparr>)"

definition sub :: "numval Amount \<Rightarrow> numval Amount \<Rightarrow> error + numval Amount" where
  "sub amount1 amount2 =
     (if currency amount1 \<noteq> currency amount2 then Inl unmatching
      else Inr \<lparr>number = (case (number amount1, number amount2) of
                              (Dec a, Dec b) \<Rightarrow> Dec (Decimal_minus a b)
                            | (Dec a, NonFinite) \<Rightarrow> NonFinite
                            | (NonFinite, Dec b) \<Rightarrow> NonFinite
                            | (NonFinite, NonFinite) \<Rightarrow> NonFinite
                            | _ \<Rightarrow> Dec 0),
                 currency = currency amount1\<rparr>)"

section \<open>core/position.js and core/inventory.js\<close>

text \<open>
  \<^verbatim>\<open>position.js\<close> has its own \<^verbatim>\<open>Amount\<close>, \<^verbatim>\<open>Cost\<close> and \<^verbatim>\<open>Position\<close> classes.
  The inventory calls \<^verbatim>\<open>eq\<close> and \<^verbatim>\<open>plus\<close> on the numbers it stores, so they are
  Decimals: the units of a position are a \<^typ>\<open>rat Amount\<close>.
\<close>

record 'n Cost =
  cost_number :: 'n
  cost_currency :: string
  cost_date :: "date option"
  cost_label :: "string option"

record Position =
  units :: "rat Amount"
  cost :: "rat Cost option"

datatype MatchResult = CREATED | REDUCED | AUGMENTED | IGNORED

text \<open>
  The inventory is a JavaScript \<^verbatim>\<open>Map\<close> from a string key to a Position. The key is
  \<^verbatim>\<open>`${units.currency},${cost ? cost.toString() : "null"}`\<close> with
  \<^verbatim>\<open>
  toString() {
    let parts = [`${this.number} ${this.currency}`];
    if (this.date) parts.push(this.date.toISOString().split('T')[0]);
    if (this.label) parts.push(`"${this.label}"`);
    return parts.join(', ');
  }
  \<close>
  The model keeps what the string holds instead of its characters: the number, the
  currency, the day of the date when there is a date, and the label when it is neither
  \<^verbatim>\<open>null\<close> nor the empty string (an empty label is falsy and is not printed).
  \<^verbatim>\<open>toISOString().split('T')[0]\<close> is the calendar day of the instant in UTC, which is
  kept as the number of whole days since the epoch: two instants of one day print the
  same. This takes the printing of a Decimal to be injective and a currency to have no
  comma or space in it, as the currency grammar says.

  A \<^verbatim>\<open>Map\<close> keeps its keys distinct and in insertion order: it is an association
  list, \<^verbatim>\<open>set\<close> is \<^const>\<open>AList.update\<close> (in place for a known key, at the end for a
  new one), \<^verbatim>\<open>delete\<close> is \<^const>\<open>AList.delete\<close> and \<^verbatim>\<open>get\<close> is \<^const>\<open>map_of\<close>.
\<close>

definition isoDay :: "date \<Rightarrow> int" where
  "isoDay d = d div 86400000"

type_synonym cost_string = "rat \<times> string \<times> int option \<times> string option"

definition cost_toString :: "rat Cost \<Rightarrow> cost_string" where
  "cost_toString c =
     (cost_number c, cost_currency c, map_option isoDay (cost_date c),
      (case cost_label c of None \<Rightarrow> None | Some l \<Rightarrow> if l = [] then None else Some l))"

type_synonym inventory_key = "string \<times> cost_string option"

definition inventory_key :: "rat Amount \<Rightarrow> rat Cost option \<Rightarrow> inventory_key" where
  "inventory_key u c = (currency u, map_option cost_toString c)"

type_synonym Inventory = "(inventory_key \<times> Position) list"

text \<open>
  \<^verbatim>\<open>inventory.js\<close> starts with
  \<^verbatim>\<open>
  const { ZERO, same_sign } = require("./number");
  const convert = require("./convert");
  \<close>
  and \<^verbatim>\<open>number.js\<close> has
  \<^verbatim>\<open>
  const ZERO = 0;
  function sameSign(number1, number2) { return number1 >= 0 === number2 >= 0; }
  export { ZERO, HALF, ONE, TEN, MISSING, D, roundTo, sameSign, autoQuantize, inferQuantumFromList };
  \<close>
  It exports nothing under the name \<^verbatim>\<open>same_sign\<close>, so in the inventory \<^verbatim>\<open>same_sign\<close> is
  \<^verbatim>\<open>undefined\<close>. \<^verbatim>\<open>ZERO\<close> is the JavaScript number 0 and not a Decimal: a Decimal can be
  compared with it (\<^verbatim>\<open>x.eq(ZERO)\<close>), and it has no method \<^verbatim>\<open>plus\<close>. A value that is a
  JavaScript number or a Decimal is a \<open>scalar\<close>.
\<close>

datatype scalar = Number rat | Decimal rat

definition ZERO :: scalar where
  "ZERO = Number 0"

definition sameSign :: "rat \<Rightarrow> rat \<Rightarrow> bool" where
  "sameSign number1 number2 = ((number1 \<ge> 0) = (number2 \<ge> 0))"

definition same_sign :: "(rat \<Rightarrow> rat \<Rightarrow> bool) binding" where
  "same_sign = Undefined"

definition Decimal_eq :: "rat \<Rightarrow> scalar \<Rightarrow> bool" where
  "Decimal_eq x y = (case y of Number n \<Rightarrow> x = n | Decimal d \<Rightarrow> x = d)"

text \<open>
  \<^verbatim>\<open>
  addAmount(units, cost = null) {
    const key = `${units.currency},${cost ? cost.toString() : "null"}`;
    const pos = this.get(key);
    let booking;
    if (pos) {
      booking = !same_sign(pos.units.number, units.number)
        ? MatchResult.REDUCED : MatchResult.AUGMENTED;
      const number = pos.units.number.plus(units.number);
      if (number.eq(ZERO)) { this.delete(key); }
      else { this.set(key, new Position(new Amount(number, units.currency), cost)); }
    } else {
      if (units.number.eq(ZERO)) { booking = MatchResult.IGNORED; }
      else { this.set(key, new Position(units, cost)); booking = MatchResult.CREATED; }
    }
    return [pos, booking];
  }
  \<close>
  The method mutates the inventory; the model returns what the method returns or throws
  together with the inventory after the call. With a position under the key the first
  statement of the branch calls \<^verbatim>\<open>same_sign\<close>, before anything is changed.
\<close>

definition addAmount ::
  "rat Amount \<Rightarrow> rat Cost option \<Rightarrow> Inventory
     \<Rightarrow> (error + Position option \<times> MatchResult) \<times> Inventory" where
  "addAmount u c this =
     (let key = inventory_key u c; pos = map_of this key in
      case pos of
        Some p \<Rightarrow>
          (case same_sign of
             Undefined \<Rightarrow> (Inl TypeError, this)
           | Bound f \<Rightarrow>
               (let booking = (if \<not> f (number (units p)) (number u) then REDUCED else AUGMENTED);
                    n = Decimal_plus (number (units p)) (number u)
                in (Inr (pos, booking),
                    if Decimal_eq n ZERO then AList.delete key this
                    else AList.update key
                           \<lparr>units = \<lparr>number = n, currency = currency u\<rparr>, cost = c\<rparr> this)))
      | None \<Rightarrow>
          (if Decimal_eq (number u) ZERO then (Inr (pos, IGNORED), this)
           else (Inr (pos, CREATED), AList.update key \<lparr>units = u, cost = c\<rparr> this)))"

definition addPosition ::
  "Position \<Rightarrow> Inventory \<Rightarrow> (error + Position option \<times> MatchResult) \<times> Inventory" where
  "addPosition position this = addAmount (units position) (cost position) this"

definition isEmpty :: "Inventory \<Rightarrow> bool" where
  "isEmpty this = (length this = 0)"

definition getPositions :: "Inventory \<Rightarrow> Position list" where
  "getPositions this = map snd this"

text \<open>
  \<^verbatim>\<open>
  addInventory(other) {
    if (this.isEmpty()) {
      for (const [key, value] of other) { this.set(key, value); }
    } else {
      for (const position of other.getPositions()) { this.addPosition(position); }
    }
    return this;
  }
  \<close>
  The class overrides \<^verbatim>\<open>[Symbol.iterator]\<close> to return \<^verbatim>\<open>this.values()\<close>, so the first
  loop iterates over Positions and the array pattern \<^verbatim>\<open>[key, value]\<close> throws a
  TypeError on the first of them (a Position is not iterable), before anything is set.
  The second loop stops at the first \<^verbatim>\<open>addPosition\<close> that throws and leaves in the
  inventory what the calls before it have stored.
\<close>

fun addPositions :: "Position list \<Rightarrow> Inventory \<Rightarrow> (error + unit) \<times> Inventory" where
  "addPositions [] this = (Inr (), this)"
| "addPositions (position # positions) this =
     (case addPosition position this of
        (Inl e, this') \<Rightarrow> (Inl e, this')
      | (Inr r, this') \<Rightarrow> addPositions positions this')"

definition addInventory :: "Inventory \<Rightarrow> Inventory \<Rightarrow> (error + unit) \<times> Inventory" where
  "addInventory other this =
     (if isEmpty this then
        (case getPositions other of [] \<Rightarrow> (Inr (), this) | position # _ \<Rightarrow> (Inl TypeError, this))
      else addPositions (getPositions other) this)"

text \<open>
  \<^verbatim>\<open>convert.js\<close> starts with \<^verbatim>\<open>const { Amount, Cost, Position } = require("./amount");\<close>
  and \<^verbatim>\<open>amount.js\<close> exports \<^verbatim>\<open>Amount\<close> and neither \<^verbatim>\<open>Cost\<close> nor \<^verbatim>\<open>Position\<close>, so in
  \<^verbatim>\<open>convert.js\<close> these two names are \<^verbatim>\<open>undefined\<close>.
  \<^verbatim>\<open>
  function getCost(pos) {
    if (!(pos instanceof Position) && pos.constructor.name !== "Posting") {
      throw new Error("Expected Position or Posting");
    }
    const cost = pos.cost;
    if (cost instanceof Cost && cost.number instanceof Decimal) {
      return new Amount(cost.number.times(pos.units.number), cost.currency);
    } else { return pos.units; }
  }
  \<close>
  The argument is a Position of the inventory.
\<close>

definition convert_Position :: "unit binding" where
  "convert_Position = Undefined"

definition convert_Cost :: "unit binding" where
  "convert_Cost = Undefined"

definition getCost :: "Position \<Rightarrow> error + rat Amount" where
  "getCost pos =
     (case convert_Position of
        Undefined \<Rightarrow> Inl TypeError
      | Bound _ \<Rightarrow>
          (case convert_Cost of
             Undefined \<Rightarrow> Inl TypeError
           | Bound _ \<Rightarrow>
               (case cost pos of
                  Some c \<Rightarrow> Inr \<lparr>number = Decimal_times (cost_number c) (number (units pos)),
                                 currency = cost_currency c\<rparr>
                | None \<Rightarrow> Inr (units pos))))"

text \<open>
  \<^verbatim>\<open>
  average() {
    const groups = new Map();
    for (const position of this.values()) {
      const key = `${position.units.currency},${
        position.cost ? position.cost.currency : "null"}`;
      if (!groups.has(key)) { groups.set(key, []); }
      groups.get(key).push(position);
    }
    const averageInventory = new Inventory();
    for (const positions of groups.values()) {
      const totalUnits = positions.reduce((sum, pos) => sum.plus(pos.units.number), ZERO);
      if (totalUnits.eq(ZERO)) continue;
      const currency = positions[0].units.currency;
      const unitsAmount = new Amount(totalUnits, currency);
      const costCurrency = positions[0].cost ? positions[0].cost.currency : null;
      if (costCurrency) {
        const totalCost = positions.reduce(
          (sum, pos) => sum.plus(convert.getCost(pos).number), ZERO);
        const costNumber = totalUnits.eq(ZERO)
          ? new Decimal("Infinity") : totalCost.div(totalUnits);
        const minDate = positions.reduce((min, pos) => {
          const posDate = pos.cost ? pos.cost.date : null;
          return posDate && (!min || posDate < min) ? posDate : min;
        }, null);
        const cost = new Cost(costNumber, costCurrency, minDate, null);
        averageInventory.addAmount(unitsAmount, cost);
      } else {
        averageInventory.addAmount(unitsAmount);
      }
    }
    return averageInventory;
  }
  \<close>
  The sums start from \<^verbatim>\<open>ZERO\<close>, the JavaScript number 0, and \<^verbatim>\<open>sum.plus\<close> is called on it
  for the first position of a group: \<^verbatim>\<open>(0).plus\<close> is \<^verbatim>\<open>undefined\<close>, and calling it throws
  a TypeError. A group is never empty. The method builds a new inventory and leaves its
  own unchanged; what it throws leaves the method, and the new inventory is lost.
\<close>

definition average_key :: "Position \<Rightarrow> string \<times> string" where
  "average_key position =
     (currency (units position),
      (case cost position of None \<Rightarrow> ''null'' | Some c \<Rightarrow> cost_currency c))"

definition average_groups :: "Position list \<Rightarrow> ((string \<times> string) \<times> Position list) list" where
  "average_groups positions =
     fold (\<lambda>position groups.
             let key = average_key position;
                 groups1 = (if map_of groups key = None then AList.update key [] groups else groups)
             in case map_of groups1 key of
                  Some ps \<Rightarrow> AList.update key (ps @ [position]) groups1
                | None \<Rightarrow> groups1)
          positions []"

definition scalar_plus :: "scalar \<Rightarrow> rat \<Rightarrow> error + scalar" where
  "scalar_plus s x =
     (case s of Number n \<Rightarrow> Inl TypeError | Decimal d \<Rightarrow> Inr (Decimal (Decimal_plus d x)))"

definition minDate :: "Position list \<Rightarrow> date option" where
  "minDate positions =
     fold (\<lambda>pos m.
             let posDate = (case cost pos of Some c \<Rightarrow> cost_date c | None \<Rightarrow> None)
             in case posDate of
                  None \<Rightarrow> m
                | Some d \<Rightarrow> (case m of None \<Rightarrow> posDate
                             | Some md \<Rightarrow> if d < md then posDate else m))
          positions None"

definition added :: "(error + 'r) \<times> Inventory \<Rightarrow> error + Inventory" where
  "added r = (case r of (Inl e, this) \<Rightarrow> Inl e | (Inr x, this) \<Rightarrow> Inr this)"

definition average_group :: "Position list \<Rightarrow> Inventory \<Rightarrow> error + Inventory" where
  "average_group positions averageInventory =
     (case foldE (\<lambda>pos total. scalar_plus total (number (units pos))) positions ZERO of
        Inl e \<Rightarrow> Inl e
      | Inr (Number n) \<Rightarrow> Inl TypeError
      | Inr (Decimal totalUnits) \<Rightarrow>
          if Decimal_eq totalUnits ZERO then Inr averageInventory
          else (case positions of
             [] \<Rightarrow> Inl TypeError
           | p0 # _ \<Rightarrow>
              (let unitsAmount = \<lparr>number = totalUnits, currency = currency (units p0)\<rparr>;
                   costCurrency = (case cost p0 of Some c \<Rightarrow> Some (cost_currency c) | None \<Rightarrow> None)
               in if costCurrency \<noteq> None \<and> costCurrency \<noteq> Some []
                  then (case foldE (\<lambda>pos total. case getCost pos of
                                                    Inl e \<Rightarrow> Inl e
                                                  | Inr a \<Rightarrow> scalar_plus total (number a))
                                   positions ZERO of
                          Inl e \<Rightarrow> Inl e
                        | Inr (Number n) \<Rightarrow> Inl TypeError
                        | Inr (Decimal totalCost) \<Rightarrow>
                            (let costNumber = Decimal_div totalCost totalUnits;
                                 c = \<lparr>cost_number = costNumber, cost_currency = the costCurrency,
                                      cost_date = minDate positions, cost_label = None\<rparr>
                             in added (addAmount unitsAmount (Some c) averageInventory)))
                  else added (addAmount unitsAmount None averageInventory))))"

definition average :: "Inventory \<Rightarrow> error + Inventory" where
  "average this =
     foldE average_group (map snd (average_groups (getPositions this))) []"

text \<open>
  \<^verbatim>\<open>
  function checkInvariants(inv) {
    const lots = new Set(
      Array.from(inv.values()).map((pos) => `${pos.units.currency},${pos.cost}`));
    if (lots.size !== inv.size) { throw new Error(`Invalid inventory: ${inv}`); }
    for (const pos of inv.values()) {
      if (pos.units.number.eq(ZERO)) { throw new Error(`Invalid position size: ${pos}`); }
    }
    return true;
  }
  \<close>
\<close>

definition position_key :: "Position \<Rightarrow> inventory_key" where
  "position_key pos = inventory_key (units pos) (cost pos)"

definition checkInvariants :: "Inventory \<Rightarrow> error + bool" where
  "checkInvariants this =
     (let lots = remdups (map position_key (getPositions this)) in
      if length lots \<noteq> length this then Inl (Error ''Invalid inventory'')
      else if list_ex (\<lambda>pos. Decimal_eq (number (units pos)) ZERO) (getPositions this)
           then Inl (Error ''Invalid position size'')
           else Inr True)"

text \<open>
  The inventories a program can build: the empty one, and what \<^verbatim>\<open>addAmount\<close>,
  \<^verbatim>\<open>addPosition\<close>, \<^verbatim>\<open>addInventory\<close> and \<^verbatim>\<open>average\<close> make of inventories built before.
  An inventory that one of the first three has changed before throwing is one of them;
  \<^verbatim>\<open>average\<close> hands out an inventory only when it returns.
\<close>

inductive reachable :: "Inventory \<Rightarrow> bool" where
  reach_empty: "reachable []"
| reach_addAmount: "reachable this \<Longrightarrow> reachable (snd (addAmount u c this))"
| reach_addPosition: "reachable this \<Longrightarrow> reachable (snd (addPosition p this))"
| reach_addInventory:
    "reachable this \<Longrightarrow> reachable other \<Longrightarrow> reachable (snd (addInventory other this))"
| reach_average: "reachable this \<Longrightarrow> average this = Inr this' \<Longrightarrow> reachable this'"

section \<open>core/prices.js: the price map\<close>

text \<open>
  A \<^verbatim>\<open>Price\<close> directive has a date, a base currency and an amount in the quote
  currency. The price map is a \<^verbatim>\<open>Map\<close> from the string \<^verbatim>\<open>"base,quote"\<close> to an array
  of \<^verbatim>\<open>[date, rate]\<close> pairs; the model keeps the pair of currencies the string is
  joined from and split into (a currency holds no comma). The file has its own
  \<^verbatim>\<open>const ONE = new Decimal(1)\<close> and \<^verbatim>\<open>const ZERO = new Decimal(0)\<close>;
  \<^verbatim>\<open>ONE.div(rate)\<close> is the reciprocal of the rate rounded to 20 significant digits.
\<close>

record Price =
  price_date :: date
  price_currency :: string
  price_amount :: "rat Amount"

datatype entry = PriceEntry Price | OtherEntry

type_synonym pair = "string \<times> string"
type_synonym priceList = "(date \<times> rat) list"
type_synonym priceTable = "(pair \<times> priceList) list"

record PriceMap =
  table :: priceTable
  forwardPairs :: "pair list"

fun priceEntries :: "entry list \<Rightarrow> Price list" where
  "priceEntries [] = []"
| "priceEntries (PriceEntry p # es) = p # priceEntries es"
| "priceEntries (OtherEntry # es) = priceEntries es"

text \<open>
  \<^verbatim>\<open>
  for (const price of priceEntries) {
    const baseQuote = [price.currency, price.amount.currency];
    if (!priceMap.has(baseQuote.toString())) { priceMap.set(baseQuote.toString(), []); }
    priceMap.get(baseQuote.toString()).push([price.date, new Decimal(price.amount.number)]);
  }
  \<close>
\<close>

definition pushPrice :: "Price \<Rightarrow> priceTable \<Rightarrow> priceTable" where
  "pushPrice price priceMap =
     (let baseQuote = (price_currency price, currency (price_amount price));
          priceMap1 = (if map_of priceMap baseQuote = None
                       then AList.update baseQuote [] priceMap else priceMap)
      in case map_of priceMap1 baseQuote of
           Some l \<Rightarrow> AList.update baseQuote
                       (l @ [(price_date price, number (price_amount price))]) priceMap1
         | None \<Rightarrow> priceMap1)"

text \<open>
  \<^verbatim>\<open>
  for (const [baseQuote, values] of priceMap.entries()) {
    const [base, quote] = baseQuote.split(",");
    if (priceMap.has(`${quote},${base}`)) { inversedUnits.push([base, quote]); }
  }
  \<close>
\<close>

definition inversedUnits :: "priceTable \<Rightarrow> pair list" where
  "inversedUnits priceMap =
     map fst (filter (\<lambda>((base, quote), values). map_of priceMap (quote, base) \<noteq> None) priceMap)"

definition invertList :: "priceList \<Rightarrow> priceList" where
  "invertList l =
     map (\<lambda>(d, rate). (d, Decimal_div 1 rate)) (filter (\<lambda>(d, rate). rate \<noteq> 0) l)"

text \<open>
  \<^verbatim>\<open>
  for (const [base, quote] of inversedUnits) {
    const bqPrices = priceMap.get(`${base},${quote}`);
    const qbPrices = priceMap.get(`${quote},${base}`);
    const remove = bqPrices.length < qbPrices.length ? [base, quote] : [quote, base];
    const [removeBase, removeQuote] = remove;
    const removeList = priceMap.get(`${removeBase},${removeQuote}`);
    const insertList = priceMap.get(`${removeQuote},${removeBase}`);
    priceMap.delete(`${removeBase},${removeQuote}`);
    const invertedList = removeList.filter(([, rate]) => !rate.equals(ZERO))
      .map(([date, rate]) => [date, ONE.div(rate)]);
    insertList.push(...invertedList);
  }
  \<close>
  Reading \<^verbatim>\<open>length\<close> of a list that \<^verbatim>\<open>get\<close> did not find throws a TypeError. The
  \<^verbatim>\<open>push\<close> changes the array stored under the other key; for a pair of a currency with
  itself that array has just been deleted from the map.
\<close>

definition mergeInverse :: "pair \<Rightarrow> priceTable \<Rightarrow> error + priceTable" where
  "mergeInverse bq priceMap =
     (case bq of (base, quote) \<Rightarrow>
        (case (map_of priceMap (base, quote), map_of priceMap (quote, base)) of
           (Some bqPrices, Some qbPrices) \<Rightarrow>
             (let remove = (if length bqPrices < length qbPrices then (base, quote) else (quote, base));
                  removeList = (if length bqPrices < length qbPrices then bqPrices else qbPrices);
                  insertList = (if length bqPrices < length qbPrices then qbPrices else bqPrices);
                  insertKey = (snd remove, fst remove);
                  priceMap1 = AList.delete remove priceMap
              in Inr (if insertKey = remove then priceMap1
                      else AList.update insertKey (insertList @ invertList removeList) priceMap1))
         | _ \<Rightarrow> Inl TypeError))"

text \<open>
  \<^verbatim>\<open>
  const sortedUnique = dateRates
    .sort((a, b) => a[0] - b[0])
    .filter((item, index, self) =>
        index === self.findIndex((t) => t[0].getTime() === item[0].getTime()));
  \<close>
  \<^verbatim>\<open>Array.prototype.sort\<close> is stable, and there is one stable ordering of a list by a
  key: \<^const>\<open>sort_key\<close>. \<^verbatim>\<open>findIndex\<close> returns \<^verbatim>\<open>-1\<close> when nothing is found.
\<close>

fun findIndex :: "('a \<Rightarrow> bool) \<Rightarrow> 'a list \<Rightarrow> int" where
  "findIndex P [] = - 1"
| "findIndex P (x # xs) =
     (if P x then 0 else (let i = findIndex P xs in if i < 0 then - 1 else i + 1))"

definition sortedUnique :: "priceList \<Rightarrow> priceList" where
  "sortedUnique dateRates =
     (let self = sort_key fst dateRates in
      map snd (filter (\<lambda>(index, item). int index = findIndex (\<lambda>t. fst t = fst item) self)
                      (enumerate 0 self)))"

text \<open>
  \<^verbatim>\<open>
  const forwardPairs = Array.from(sortedPriceMap.keys());
  for (const baseQuote of forwardPairs) {
    const [base, quote] = baseQuote.split(",");
    const priceList = sortedPriceMap.get(baseQuote);
    const invertedList = priceList.filter(([, price]) => !price.equals(ZERO))
      .map(([date, price]) => [date, ONE.div(price)]);
    sortedPriceMap.set(`${quote},${base}`, invertedList);
  }
  \<close>
\<close>

definition setInverse :: "pair \<Rightarrow> priceTable \<Rightarrow> error + priceTable" where
  "setInverse baseQuote sortedPriceMap =
     (case baseQuote of (base, quote) \<Rightarrow>
        (case map_of sortedPriceMap baseQuote of
           Some priceList \<Rightarrow> Inr (AList.update (quote, base) (invertList priceList) sortedPriceMap)
         | None \<Rightarrow> Inl TypeError))"

definition buildPriceMap :: "entry list \<Rightarrow> error + PriceMap" where
  "buildPriceMap entries =
     (let priceMap = fold pushPrice (priceEntries entries) [] in
      case foldE mergeInverse (inversedUnits priceMap) priceMap of
        Inl e \<Rightarrow> Inl e
      | Inr priceMap' \<Rightarrow>
          (let sortedPriceMap = map (\<lambda>(baseQuote, dateRates). (baseQuote, sortedUnique dateRates)) priceMap';
               fwd = map fst sortedPriceMap
           in case foldE setInverse fwd sortedPriceMap of
                Inl e \<Rightarrow> Inl e
              | Inr m \<Rightarrow> Inr \<lparr>table = m, forwardPairs = fwd\<rparr>))"

text \<open>
  \<^verbatim>\<open>
  function lookupPriceAndInverse(priceMap, baseQuote) {
    const key = baseQuote.join(",");
    if (priceMap.has(key)) { return priceMap.get(key); }
    const inverseKey = baseQuote.reverse().join(",");
    if (priceMap.has(inverseKey)) { return priceMap.get(inverseKey); }
    throw new Error(`Price not found for ${baseQuote.join("/")}`);
  }
  \<close>
\<close>

definition lookupPriceAndInverse :: "priceTable \<Rightarrow> pair \<Rightarrow> error + priceList" where
  "lookupPriceAndInverse priceMap baseQuote =
     (case map_of priceMap baseQuote of
        Some l \<Rightarrow> Inr l
      | None \<Rightarrow>
         (case map_of priceMap (snd baseQuote, fst baseQuote) of
            Some l \<Rightarrow> Inr l
          | None \<Rightarrow> Inl (Error ''Price not found'')))"

text \<open>
  \<^verbatim>\<open>
  function getLatestPrice(priceMap, baseQuote) {
    const [base, quote] = baseQuote;
    if (!quote || base === quote) { return [null, ONE]; }
    try {
      const priceList = lookupPriceAndInverse(priceMap, baseQuote);
      return priceList[priceList.length - 1] || [null, null];
    } catch (error) { return [null, null]; }
  }
  function getPrice(priceMap, baseQuote, date = null) {
    if (!date) { return getLatestPrice(priceMap, baseQuote); }
    const [base, quote] = normalizeBaseQuote(baseQuote);
    if (!quote || base === quote) { return [null, ONE]; }
    try {
      const priceList = lookupPriceAndInverse(priceMap, [base, quote]);
      const index = priceList.findIndex(([priceDate]) => priceDate > date);
      return index > 0 ? priceList[index - 1] : [null, null];
    } catch (error) { return [null, null]; }
  }
  \<close>
  The pair is given as an array of two currencies, which \<^verbatim>\<open>normalizeBaseQuote\<close> returns
  as it is. A result is the pair of a date or \<^verbatim>\<open>null\<close> and a rate or \<^verbatim>\<open>null\<close>.
\<close>

type_synonym priceResult = "date option \<times> rat option"

definition getLatestPrice :: "priceTable \<Rightarrow> pair \<Rightarrow> priceResult" where
  "getLatestPrice priceMap baseQuote =
     (case baseQuote of (base, quote) \<Rightarrow>
        if quote = [] \<or> base = quote then (None, Some 1)
        else (case lookupPriceAndInverse priceMap baseQuote of
                Inr priceList \<Rightarrow>
                  (if priceList = [] then (None, None)
                   else (Some (fst (last priceList)), Some (snd (last priceList))))
              | Inl e \<Rightarrow> (None, None)))"

definition getPrice :: "priceTable \<Rightarrow> pair \<Rightarrow> date option \<Rightarrow> priceResult" where
  "getPrice priceMap baseQuote dt =
     (case dt of
        None \<Rightarrow> getLatestPrice priceMap baseQuote
      | Some d \<Rightarrow>
         (case baseQuote of (base, quote) \<Rightarrow>
            if quote = [] \<or> base = quote then (None, Some 1)
            else (case lookupPriceAndInverse priceMap (base, quote) of
                    Inr priceList \<Rightarrow>
                      (let index = findIndex (\<lambda>(priceDate, rate). priceDate > d) priceList in
                       if index > 0
                       then (Some (fst (priceList ! nat (index - 1))),
                             Some (snd (priceList ! nat (index - 1))))
                       else (None, None))
                  | Inl e \<Rightarrow> (None, None))))"

text \<open>
  The lookup as the specification words it: the greatest entry whose date is strictly
  less than the argument, or \<^verbatim>\<open>(null, null)\<close> when there is none.
\<close>

definition spec_get_price :: "priceList \<Rightarrow> date \<Rightarrow> priceResult" where
  "spec_get_price priceList d =
     (case filter (\<lambda>(priceDate, rate). priceDate < d) priceList of
        [] \<Rightarrow> (None, None)
      | e # es \<Rightarrow> (Some (fst (last (e # es))), Some (snd (last (e # es)))))"

section \<open>core/data.js: directives and their order\<close>

text \<open>
  Every directive class starts with \<^verbatim>\<open>meta\<close> and \<^verbatim>\<open>date\<close>; \<^verbatim>\<open>meta\<close> holds the file
  name and the line number. A posting's cost is \<^verbatim>\<open>null\<close>, a \<^verbatim>\<open>CostSpec\<close> as the parser
  left it, or a bound \<^verbatim>\<open>Cost\<close>. A directive is the record of these two fields and of a
  body, whose constructor is the name of the class (\<^verbatim>\<open>entry.constructor.name\<close>).
\<close>

record Meta =
  filename :: string
  lineno :: int

text \<open>
  Modelled from the spec: the class \<^verbatim>\<open>CostSpec\<close>, which \<^verbatim>\<open>booking_full.js\<close> imports
  from \<^verbatim>\<open>core/position\<close> and no file under src/ declares with these fields:
  (number_per, number_total, currency, date, label, merge), the numbers being a Decimal,
  \<^verbatim>\<open>MISSING\<close> or \<^verbatim>\<open>null\<close>.
\<close>

record CostSpec =
  numberPer :: numval
  numberTotal :: numval
  costspec_currency :: string
  costspec_date :: "date option"
  costspec_label :: "string option"
  merge :: bool

datatype cost_value = IsCostSpec CostSpec | IsCost "numval Cost"

record Posting =
  posting_account :: string
  posting_units :: "numval Amount"
  posting_cost :: "cost_value option"
  posting_price :: "numval Amount option"
  posting_flag :: "string option"
  posting_meta :: Meta

text \<open>
  Modelled from the spec: the classes \<^verbatim>\<open>Pad\<close>, \<^verbatim>\<open>Note\<close>, \<^verbatim>\<open>Document\<close>, \<^verbatim>\<open>Event\<close>,
  \<^verbatim>\<open>Query\<close>, \<^verbatim>\<open>Price\<close> and \<^verbatim>\<open>Custom\<close>, which \<^verbatim>\<open>data.js\<close> leaves out (they "would be defined
  similarly"), with the fields of the data model: Pad(account, source_account),
  Note(account, comment), Document(account, filename), Event(name, value),
  Query(name, query_string), Price(currency, amount), Custom(type_name). The other
  classes are those of \<^verbatim>\<open>data.js\<close>.
\<close>

datatype body =
    Open string "string list option" "string option"
  | Close string
  | Commodity string
  | Balance string "numval Amount" "rat option"
  | Pad string string
  | Transaction string "string option" string "string list" "string list" "Posting list"
  | Note string string
  | Document string string
  | Event string string
  | Query string string
  | PriceDirective string "numval Amount"
  | Custom string

record directive =
  meta :: Meta
  date :: date
  body :: body

text \<open>
  \<^verbatim>\<open>
  const SORT_ORDER = { Open: -2, Balance: -1, Document: 1, Close: 2 };
  function entrySortKey(entry) {
    return [entry.date, SORT_ORDER[entry.constructor.name] || 0, entry.meta.lineno];
  }
  function sortEntries(entries) {
    return entries.sort((a, b) => {
      const keyA = entrySortKey(a);
      const keyB = entrySortKey(b);
      for (let i = 0; i < keyA.length; i++) {
        if (keyA[i] < keyB[i]) return -1;
        if (keyA[i] > keyB[i]) return 1;
      }
      return 0;
    });
  }
  \<close>
\<close>

fun SORT_ORDER :: "body \<Rightarrow> int" where
  "SORT_ORDER (Open a cs b) = - 2"
| "SORT_ORDER (Balance a am t) = - 1"
| "SORT_ORDER (Document a f) = 1"
| "SORT_ORDER (Close a) = 2"
| "SORT_ORDER _ = 0"

definition entrySortKey :: "directive \<Rightarrow> int \<times> int \<times> int" where
  "entrySortKey entry = (date entry, SORT_ORDER (body entry), lineno (meta entry))"

fun compareKeys :: "int list \<Rightarrow> int list \<Rightarrow> int" where
  "compareKeys (x # xs) (y # ys) =
     (if x < y then - 1 else if x > y then 1 else compareKeys xs ys)"
| "compareKeys _ _ = 0"

definition compareEntries :: "directive \<Rightarrow> directive \<Rightarrow> int" where
  "compareEntries a b =
     (case (entrySortKey a, entrySortKey b) of
        ((d1, r1, l1), (d2, r2, l2)) \<Rightarrow> compareKeys [d1, r1, l1] [d2, r2, l2])"

text \<open>
  \<^verbatim>\<open>Array.prototype.sort\<close> with a comparator is a stable sort: an element goes before
  the first element it does not compare greater than, and equal elements keep their order.
\<close>

fun insertBy :: "('a \<Rightarrow> 'a \<Rightarrow> int) \<Rightarrow> 'a \<Rightarrow> 'a list \<Rightarrow> 'a list" where
  "insertBy cmp x [] = [x]"
| "insertBy cmp x (y # ys) = (if cmp x y \<le> 0 then x # y # ys else y # insertBy cmp x ys)"

definition sortBy :: "('a \<Rightarrow> 'a \<Rightarrow> int) \<Rightarrow> 'a list \<Rightarrow> 'a list" where
  "sortBy cmp xs = foldr (insertBy cmp) xs []"

definition sortEntries :: "directive list \<Rightarrow> directive list" where
  "sortEntries entries = sortBy compareEntries entries"

definition sort_key_le :: "directive \<Rightarrow> directive \<Rightarrow> bool" where
  "sort_key_le a b = (compareEntries a b \<le> 0)"

section \<open>loader.js\<close>

text \<open>
  \<^verbatim>\<open>
  function _load(sources, logTimings, extraValidations, encoding) {
    ...
    [entries, errors, optionsMap] = _parseRecursive(sources, logTimings, encoding);
    entries.sort((a, b) => a.date - b.date);
    // Run booking
    entries = book(entries, optionsMap);
    ...
  \<close>
  The entries of all the sources, merged by \<^verbatim>\<open>_parseRecursive\<close>, are sorted here and
  nowhere else; \<open>load_sort\<close> is that statement.
\<close>

definition load_sort :: "directive list \<Rightarrow> directive list" where
  "load_sort entries = sortBy (\<lambda>a b. date a - date b) entries"

section \<open>parser/booking_full.js: interpolation of a currency group\<close>

text \<open>
  The file starts with
  \<^verbatim>\<open>const { Amount, Position, Cost, CostSpec } = require("../core/position");\<close>
  and \<^verbatim>\<open>position.js\<close> ends with \<^verbatim>\<open>module.exports = { Amount, Cost, Position };\<close>: it
  exports nothing under the name \<^verbatim>\<open>CostSpec\<close>, so in \<^verbatim>\<open>booking_full.js\<close> \<^verbatim>\<open>CostSpec\<close> is
  \<^verbatim>\<open>undefined\<close>, and \<^verbatim>\<open>cost instanceof CostSpec\<close> throws a TypeError whatever \<^verbatim>\<open>cost\<close> is.
\<close>

datatype MissingType = UNITS | COST_PER | COST_TOTAL | PRICE

datatype InterpolationError = InterpolationError Meta string

definition CostSpec_class :: "unit binding" where
  "CostSpec_class = Undefined"

definition instanceof_CostSpec :: "cost_value option \<Rightarrow> error + bool" where
  "instanceof_CostSpec v =
     (case CostSpec_class of
        Undefined \<Rightarrow> Inl TypeError
      | Bound _ \<Rightarrow> Inr (case v of Some (IsCostSpec cs) \<Rightarrow> True | _ \<Rightarrow> False))"

text \<open>
  \<^verbatim>\<open>
  postings.forEach((posting, index) => {
    const { units, cost, price } = posting;
    if (units.number === MISSING) { incomplete.push([MissingType.UNITS, index]); }
    if (cost instanceof CostSpec) {
      if (cost && cost.numberPer === MISSING) { incomplete.push([MissingType.COST_PER, index]); }
      if (cost && cost.numberTotal === MISSING) { incomplete.push([MissingType.COST_TOTAL, index]); }
    } else if (cost !== null) {
      if (!(cost.number instanceof Decimal)) { throw new Error(`Internal error: ...`); }
    }
    if (price && price.number === MISSING) { incomplete.push([MissingType.PRICE, index]); }
  });
  \<close>
\<close>

definition internal_error :: error where
  "internal_error = Error ''Internal error: cost has no number''"

definition scanPosting ::
  "nat \<times> Posting \<Rightarrow> (MissingType \<times> nat) list \<Rightarrow> error + (MissingType \<times> nat) list" where
  "scanPosting ip incomplete =
     (case ip of (index, posting) \<Rightarrow>
        (let incomplete1 = (if number (posting_units posting) = MISSING
                            then incomplete @ [(UNITS, index)] else incomplete);
             afterPrice = (\<lambda>inc. case posting_price posting of
                              Some price \<Rightarrow> if number price = MISSING then inc @ [(PRICE, index)] else inc
                            | None \<Rightarrow> inc)
         in case instanceof_CostSpec (posting_cost posting) of
              Inl e \<Rightarrow> Inl e
            | Inr isCostSpec \<Rightarrow>
               (case posting_cost posting of
                  Some (IsCostSpec cs) \<Rightarrow>
                    (let incomplete2 = (if numberPer cs = MISSING
                                        then incomplete1 @ [(COST_PER, index)] else incomplete1);
                         incomplete3 = (if numberTotal cs = MISSING
                                        then incomplete2 @ [(COST_TOTAL, index)] else incomplete2)
                     in Inr (afterPrice incomplete3))
                | Some (IsCost c) \<Rightarrow>
                    (if \<not> isDecimalInstance (cost_number c) then Inl internal_error
                     else Inr (afterPrice incomplete1))
                | None \<Rightarrow> Inr (afterPrice incomplete1))))"

text \<open>
  \<^verbatim>\<open>
  function convertCostspecToCost(posting) {
    const { cost } = posting;
    if (cost instanceof CostSpec && cost !== null) {
      const { numberPer, numberTotal, currency, date, label } = cost;
      let unitCost;
      if (numberTotal !== null) {
        const unitsNumber = posting.units.number.abs();
        const costTotal = numberTotal;
        unitCost = numberPer !== MISSING
          ? costTotal.plus(numberPer.times(unitsNumber)).div(unitsNumber)
          : costTotal.div(unitsNumber);
      } else { unitCost = numberPer; }
      const newCost = new Cost(unitCost, currency, date, label);
      return { ...posting, cost: newCost };
    }
    return posting;
  }
  \<close>
  Calling a method of \<^verbatim>\<open>null\<close> or of the \<^verbatim>\<open>MISSING\<close> symbol throws a TypeError; a
  division by zero does not throw and returns a Decimal that is not finite.
\<close>

definition decimal_div :: "numval \<Rightarrow> rat \<Rightarrow> numval" where
  "decimal_div x y =
     (case x of Dec a \<Rightarrow> if y = 0 then NonFinite else Dec (Decimal_div a y) | _ \<Rightarrow> NonFinite)"

definition convertCostspecToCost :: "Posting \<Rightarrow> error + Posting" where
  "convertCostspecToCost posting =
     (case instanceof_CostSpec (posting_cost posting) of
        Inl e \<Rightarrow> Inl e
      | Inr isCostSpec \<Rightarrow>
     (case posting_cost posting of
        Some (IsCostSpec cs) \<Rightarrow>
          (let bind = (\<lambda>unitCost. Inr (posting\<lparr>posting_cost :=
                          Some (IsCost \<lparr>cost_number = unitCost, cost_currency = costspec_currency cs,
                                        cost_date = costspec_date cs, cost_label = costspec_label cs\<rparr>)\<rparr>))
           in if numberTotal cs \<noteq> NULL then
                (case number (posting_units posting) of
                   Dec u \<Rightarrow>
                     (let unitsNumber = \<bar>u\<bar> in
                      if numberPer cs \<noteq> MISSING then
                        (case (numberTotal cs, numberPer cs) of
                           (Dec t, Dec p) \<Rightarrow>
                             bind (decimal_div (Dec (Decimal_plus t (Decimal_times p unitsNumber)))
                                               unitsNumber)
                         | (Dec t, NonFinite) \<Rightarrow> bind NonFinite
                         | (NonFinite, Dec p) \<Rightarrow> bind NonFinite
                         | (NonFinite, NonFinite) \<Rightarrow> bind NonFinite
                         | _ \<Rightarrow> Inl TypeError)
                      else
                        (case numberTotal cs of
                           Dec t \<Rightarrow> bind (decimal_div (Dec t) unitsNumber)
                         | NonFinite \<Rightarrow> bind NonFinite
                         | _ \<Rightarrow> Inl TypeError))
                 | NonFinite \<Rightarrow>
                     (if numberPer cs \<noteq> MISSING then
                        (if isDecimalInstance (numberTotal cs) \<and> isDecimalInstance (numberPer cs)
                         then bind NonFinite else Inl TypeError)
                      else (if isDecimalInstance (numberTotal cs) then bind NonFinite else Inl TypeError))
                 | _ \<Rightarrow> Inl TypeError)
              else bind (numberPer cs))
      | _ \<Rightarrow> Inr posting))"

fun mapE :: "('a \<Rightarrow> error + 'b) \<Rightarrow> 'a list \<Rightarrow> error + 'b list" where
  "mapE f [] = Inr []"
| "mapE f (x # xs) =
     (case f x of Inl e \<Rightarrow> Inl e
      | Inr y \<Rightarrow> (case mapE f xs of Inl e \<Rightarrow> Inl e | Inr ys \<Rightarrow> Inr (y # ys)))"

text \<open>
  \<^verbatim>\<open>
  if (incomplete.length === 0) {
    const outPostings = postings.map(convertCostspecToCost);
    return [outPostings, errors, false];
  } else if (incomplete.length > 1) {
    const [, postingIndex] = incomplete[0];
    errors.push(new InterpolationError(postings[postingIndex].meta,
        `Too many missing numbers for currency group '${currency}'`, null));
    return [[], errors, false];
  } else {
    const [missing, index] = incomplete[0];
    const incompletePosting = postings[index];
    const newPostings = postings.map((posting) =>
      posting === incompletePosting ? posting : convertCostspecToCost(posting));
    const residual = interpolate.computeResidual(
      newPostings.filter((posting) => posting !== incompletePosting));
    // ...
    return [outPostings, errors, newPosting !== null];
  }
  \<close>
  In the last branch \<^verbatim>\<open>outPostings\<close> is not declared (the name is local to the first
  branch), so the \<^verbatim>\<open>return\<close> throws a ReferenceError once the conversions before it
  have gone through; \<^verbatim>\<open>computeResidual\<close> only sums and does not throw. The loop over
  the postings comes first, and what it throws leaves the function.
\<close>

definition interpolateGroup ::
  "Posting list \<Rightarrow> 'b \<Rightarrow> string \<Rightarrow> 't \<Rightarrow> error + (Posting list \<times> InterpolationError list \<times> bool)" where
  "interpolateGroup postings balances c tolerances =
     (case foldE scanPosting (enumerate 0 postings) [] of
        Inl e \<Rightarrow> Inl e
      | Inr incomplete \<Rightarrow>
          if length incomplete = 0 then
            (case mapE convertCostspecToCost postings of
               Inl e \<Rightarrow> Inl e
             | Inr outPostings \<Rightarrow> Inr (outPostings, [], False))
          else if length incomplete > 1 then
            (case hd incomplete of (missing, postingIndex) \<Rightarrow>
               Inr ([], [InterpolationError (posting_meta (postings ! postingIndex))
                           (''Too many missing numbers for currency group ''
                              @ [CHR 0x27] @ c @ [CHR 0x27])], False))
          else
            (case hd incomplete of (missing, index) \<Rightarrow>
               (case mapE (\<lambda>(i, posting). if i = index then Inr posting
                                            else convertCostspecToCost posting)
                          (enumerate 0 postings) of
                  Inl e \<Rightarrow> Inl e
                | Inr newPostings \<Rightarrow> Inl ReferenceError)))"

text \<open>
  The fields of a group that are missing, as the specification counts them: the units,
  the per-unit and the total number of a cost specification, and the price.
\<close>

definition missing_fields :: "Posting \<Rightarrow> MissingType list" where
  "missing_fields posting =
     (if number (posting_units posting) = MISSING then [UNITS] else []) @
     (case posting_cost posting of
        Some (IsCostSpec cs) \<Rightarrow>
          (if numberPer cs = MISSING then [COST_PER] else []) @
          (if numberTotal cs = MISSING then [COST_TOTAL] else [])
      | _ \<Rightarrow> []) @
     (case posting_price posting of
        Some price \<Rightarrow> if number price = MISSING then [PRICE] else []
      | None \<Rightarrow> [])"

section \<open>ops/pad.js: the pad processor\<close>

text \<open>
  \<^verbatim>\<open>
  const { Transaction, Pad, Balance, Posting, EMPTY_SET } = require('../core/data');
  const account = require('../core/account');
  const realization = require('../core/realization');
  ...
  function pad(entries, optionsMap) {
    const padErrors = [];
    const pads = entries.filter(entry => entry instanceof Pad);
    const padDict = groupBy(pads, pad => pad.account);
    const byAccount = realization.postingsByAccount(entries);
    const newEntries = Object.fromEntries(pads.map(pad => [pad.id, []]));
    for (const [account, padList] of Object.entries(padDict).sort()) {
      let activePad = null;
      const postings = [];
      const isChild = account.parentMatcher(account);
      ...
    }
    const paddedEntries = [];
    for (const entry of entries) {
      paddedEntries.push(entry);
      if (entry instanceof Pad) {
        const entryList = newEntries[entry.id];
        if (entryList.length > 0) { paddedEntries.push(...entryList); }
        else { padErrors.push(new PadError(entry.meta, "Unused Pad entry", entry)); }
      }
    }
    return [paddedEntries, padErrors];
  }
  \<close>
  Three statements of the function throw before a padding transaction can be built.

  \<^verbatim>\<open>data.js\<close> exports \<^verbatim>\<open>Booking\<close>, \<^verbatim>\<open>Open\<close>, \<^verbatim>\<open>Close\<close>, \<^verbatim>\<open>Commodity\<close>, \<^verbatim>\<open>Balance\<close>,
  \<^verbatim>\<open>Posting\<close>, \<^verbatim>\<open>Transaction\<close> and some functions, and nothing under the name \<^verbatim>\<open>Pad\<close>:
  in \<^verbatim>\<open>pad.js\<close> \<^verbatim>\<open>Pad\<close> is \<^verbatim>\<open>undefined\<close>, and \<^verbatim>\<open>entry instanceof Pad\<close> throws a TypeError
  for the first entry that \<^verbatim>\<open>filter\<close> looks at.

  \<^verbatim>\<open>realization.js\<close> imports nothing, and its \<^verbatim>\<open>postingsByAccount\<close> starts its loop over
  the entries with \<^verbatim>\<open>if (entry instanceof Transaction)\<close>: the name \<^verbatim>\<open>Transaction\<close> is not
  declared in that file, and reading it throws a ReferenceError for the first entry.

  Inside the loop over the accounts the name \<^verbatim>\<open>account\<close> is the loop's own constant,
  the account name of the group, which hides the module \<^verbatim>\<open>account\<close> imported at the top
  of the file. So \<^verbatim>\<open>account.parentMatcher\<close> is a property of a string, which is
  \<^verbatim>\<open>undefined\<close>, and calling it throws a TypeError: the body of the loop stops at its
  third statement, for the first account that has a Pad, whichever the order of the
  groups. Nothing of the body after that statement (the running balance, the synthetic
  transaction, the update of \<^verbatim>\<open>newEntries\<close>) is ever run.
\<close>

datatype PadError = PadError Meta string directive

fun isPad :: "directive \<Rightarrow> bool" where
  "isPad entry = (case body entry of Pad a s \<Rightarrow> True | _ \<Rightarrow> False)"

fun pad_account :: "directive \<Rightarrow> string" where
  "pad_account entry = (case body entry of Pad a s \<Rightarrow> a | _ \<Rightarrow> [])"

definition Pad_class :: "unit binding" where
  "Pad_class = Undefined"

definition instanceof_Pad :: "directive \<Rightarrow> error + bool" where
  "instanceof_Pad entry =
     (case Pad_class of Undefined \<Rightarrow> Inl TypeError | Bound _ \<Rightarrow> Inr (isPad entry))"

fun filterE :: "('a \<Rightarrow> error + bool) \<Rightarrow> 'a list \<Rightarrow> error + 'a list" where
  "filterE P [] = Inr []"
| "filterE P (x # xs) =
     (case P x of
        Inl e \<Rightarrow> Inl e
      | Inr b \<Rightarrow> (case filterE P xs of
                    Inl e \<Rightarrow> Inl e
                  | Inr ys \<Rightarrow> Inr (if b then x # ys else ys)))"

text \<open>
  \<^verbatim>\<open>
  function groupBy(array, keyFunc) {
    return array.reduce((acc, item) => {
      const key = keyFunc(item);
      if (!acc[key]) { acc[key] = []; }
      acc[key].push(item);
      return acc;
    }, {});
  }
  \<close>
\<close>

definition groupBy :: "'a list \<Rightarrow> ('a \<Rightarrow> string) \<Rightarrow> (string \<times> 'a list) list" where
  "groupBy array keyFunc =
     fold (\<lambda>item acc.
             let key = keyFunc item;
                 acc1 = (if map_of acc key = None then AList.update key [] acc else acc)
             in case map_of acc1 key of
                  Some l \<Rightarrow> AList.update key (l @ [item]) acc1
                | None \<Rightarrow> acc1)
          array []"

definition postingsByAccount :: "directive list \<Rightarrow> error + (string \<times> directive list) list" where
  "postingsByAccount entries =
     (case entries of [] \<Rightarrow> Inr [] | entry # _ \<Rightarrow> Inl ReferenceError)"

type_synonym pad_state = "(directive \<Rightarrow> directive list) \<times> PadError list"

definition padAccount :: "string \<times> directive list \<Rightarrow> pad_state \<Rightarrow> error + pad_state" where
  "padAccount entry st = (case entry of (account, padList) \<Rightarrow> Inl TypeError)"

definition pushPadded :: "(directive \<Rightarrow> directive list) \<Rightarrow> directive \<Rightarrow>
    directive list \<times> PadError list \<Rightarrow> error + directive list \<times> PadError list" where
  "pushPadded newEntries entry acc =
     (case acc of (paddedEntries, padErrors) \<Rightarrow>
        (case instanceof_Pad entry of
           Inl e \<Rightarrow> Inl e
         | Inr isPadEntry \<Rightarrow>
             if isPadEntry then
               (let entryList = newEntries entry in
                if length entryList > 0 then Inr (paddedEntries @ [entry] @ entryList, padErrors)
                else Inr (paddedEntries @ [entry],
                          padErrors @ [PadError (meta entry) ''Unused Pad entry'' entry]))
             else Inr (paddedEntries @ [entry], padErrors)))"

definition pad :: "directive list \<Rightarrow> 'o \<Rightarrow> error + (directive list \<times> PadError list)" where
  "pad entries optionsMap =
     (case filterE instanceof_Pad entries of
        Inl e \<Rightarrow> Inl e
      | Inr pads \<Rightarrow>
          (let padDict = groupBy pads pad_account in
           case postingsByAccount entries of
             Inl e \<Rightarrow> Inl e
           | Inr byAccount \<Rightarrow>
               (let newEntries = (\<lambda>pad. []) in
                case foldE padAccount padDict (newEntries, []) of
                  Inl e \<Rightarrow> Inl e
                | Inr (newEntries', padErrors) \<Rightarrow>
                    foldE (pushPadded newEntries') entries ([], padErrors))))"

section \<open>Account names\<close>

text \<open>
  Two files define \<^verbatim>\<open>isValid\<close>. Each builds a regular expression from the sources of
  two component expressions and calls \<^verbatim>\<open>test\<close>, which looks for a match anywhere in the
  string unless the expression is anchored. Regular expressions are modelled as a
  datatype with the matcher by derivatives.
\<close>

datatype regexp =
    Fail
  | Empty
  | Class "char \<Rightarrow> bool"
  | Seq regexp regexp
  | Alt regexp regexp
  | Star regexp

fun nullable :: "regexp \<Rightarrow> bool" where
  "nullable Fail = False"
| "nullable Empty = True"
| "nullable (Class P) = False"
| "nullable (Seq r s) = (nullable r \<and> nullable s)"
| "nullable (Alt r s) = (nullable r \<or> nullable s)"
| "nullable (Star r) = True"

fun deriv :: "char \<Rightarrow> regexp \<Rightarrow> regexp" where
  "deriv c Fail = Fail"
| "deriv c Empty = Fail"
| "deriv c (Class P) = (if P c then Empty else Fail)"
| "deriv c (Seq r s) =
     (if nullable r then Alt (Seq (deriv c r) s) (deriv c s) else Seq (deriv c r) s)"
| "deriv c (Alt r s) = Alt (deriv c r) (deriv c s)"
| "deriv c (Star r) = Seq (deriv c r) (Star r)"

fun matches :: "regexp \<Rightarrow> string \<Rightarrow> bool" where
  "matches r [] = nullable r"
| "matches r (c # cs) = matches (deriv c r) cs"

definition Plus :: "regexp \<Rightarrow> regexp" where
  "Plus r = Seq r (Star r)"


definition upper :: "char \<Rightarrow> bool" where
  "upper c = ((of_char (CHR ''A'') :: nat) \<le> of_char c \<and> (of_char c :: nat) \<le> of_char (CHR ''Z''))"

definition lower :: "char \<Rightarrow> bool" where
  "lower c = ((of_char (CHR ''a'') :: nat) \<le> of_char c \<and> (of_char c :: nat) \<le> of_char (CHR ''z''))"

definition digit :: "char \<Rightarrow> bool" where
  "digit c = ((of_char (CHR ''0'') :: nat) \<le> of_char c \<and> (of_char c :: nat) \<le> of_char (CHR ''9''))"

text \<open>
  \<^verbatim>\<open>core/account.js\<close>:
  \<^verbatim>\<open>
  const ACC_COMP_TYPE_RE = /[A-Z][a-zA-Z0-9\-]*/;
  const ACC_COMP_NAME_RE = /[A-Z0-9][a-zA-Z0-9\-]*/;
  const ACCOUNT_RE = new RegExp(
    `^${ACC_COMP_TYPE_RE.source}(${sep}${ACC_COMP_NAME_RE.source})+$`);
  function isValid(str) { return typeof str === "string" && ACCOUNT_RE.test(str); }
  \<close>
  Without the \<^verbatim>\<open>m\<close> flag \<^verbatim>\<open>^\<close> and \<^verbatim>\<open>$\<close> are the two ends of the string. The argument
  is a string, so \<^verbatim>\<open>typeof str === "string"\<close> holds.
\<close>

definition ACC_COMP_TYPE_RE :: regexp where
  "ACC_COMP_TYPE_RE =
     Seq (Class upper) (Star (Class (\<lambda>c. lower c \<or> upper c \<or> digit c \<or> c = CHR ''-'')))"

definition ACC_COMP_NAME_RE :: regexp where
  "ACC_COMP_NAME_RE =
     Seq (Class (\<lambda>c. upper c \<or> digit c))
         (Star (Class (\<lambda>c. lower c \<or> upper c \<or> digit c \<or> c = CHR ''-'')))"

definition sep :: char where
  "sep = CHR '':''"

definition ACCOUNT_RE :: regexp where
  "ACCOUNT_RE = Seq ACC_COMP_TYPE_RE (Plus (Seq (Class (\<lambda>c. c = sep)) ACC_COMP_NAME_RE))"

definition isValid :: "string \<Rightarrow> bool" where
  "isValid str = matches ACCOUNT_RE str"





text \<open>
  The grammar of account names as the data model words it: the components between the
  colons are at least two; the first starts with a capital letter, the others with a
  capital letter or a digit, and all go on with letters, digits and dashes.
\<close>

definition tail_char :: "char \<Rightarrow> bool" where
  "tail_char c = (lower c \<or> upper c \<or> digit c \<or> c = CHR ''-'')"

fun split :: "string \<Rightarrow> string list" where
  "split [] = [[]]"
| "split (c # cs) =
     (if c = sep then [] # split cs
      else (case split cs of w # ws \<Rightarrow> (c # w) # ws | [] \<Rightarrow> [[c]]))"

definition type_component :: "string \<Rightarrow> bool" where
  "type_component w = (case w of [] \<Rightarrow> False | c # cs \<Rightarrow> upper c \<and> list_all tail_char cs)"

definition name_component :: "string \<Rightarrow> bool" where
  "name_component w =
     (case w of [] \<Rightarrow> False | c # cs \<Rightarrow> (upper c \<or> digit c) \<and> list_all tail_char cs)"

definition account_grammar :: "string \<Rightarrow> bool" where
  "account_grammar s =
     (case split s of
        t # n # ns \<Rightarrow> type_component t \<and> list_all name_component (n # ns)
      | _ \<Rightarrow> False)"

section \<open>Notions used to state the properties\<close>

text \<open>
  What every inventory built by the operations satisfies: the keys of the map are
  distinct, every position is stored under the key computed from its own units and cost,
  and no stored position has zero units.
\<close>

definition inventory_ok :: "Inventory \<Rightarrow> bool" where
  "inventory_ok this =
     (distinct (map fst this) \<and>
      list_all (\<lambda>(key, pos). key = position_key pos \<and> number (units pos) \<noteq> 0) this)"

text \<open>
  The amount \<open>-x\<close> of an amount \<open>x\<close>, and a lot bought at 100 USD on 2023-01-01 at one
  o'clock (day 19358 since the epoch) under the label \<^verbatim>\<open>lot1\<close>.
\<close>

definition negated :: "rat Amount \<Rightarrow> rat Amount" where
  "negated u = \<lparr>number = - number u, currency = currency u\<rparr>"

definition lot :: "rat Cost" where
  "lot = \<lparr>cost_number = 100, cost_currency = ''USD'', cost_date = Some 1672534800000,
          cost_label = Some ''lot1''\<rparr>"

text \<open>
  Notions for the price map: the pair in the other direction; a list whose dates
  strictly increase; the entry with the greatest date not after a given date, or
  \<^verbatim>\<open>(null, null)\<close>; a pair whose inverse pair holds its list inverted; a table of
  lists with increasing dates; what \<^verbatim>\<open>getPrice\<close> computes on the list it found; a Price
  directive.
\<close>

definition swap_pair :: "pair \<Rightarrow> pair" where
  "swap_pair k = (snd k, fst k)"

definition strictly_dated :: "priceList \<Rightarrow> bool" where
  "strictly_dated l = sorted_wrt (<) (map fst l)"

definition latest_on_or_before :: "priceList \<Rightarrow> date \<Rightarrow> priceResult" where
  "latest_on_or_before priceList d =
     (case filter (\<lambda>(priceDate, rate). priceDate \<le> d) priceList of
        [] \<Rightarrow> (None, None)
      | e # es \<Rightarrow> (Some (fst (last (e # es))), Some (snd (last (e # es)))))"

definition inverse_of :: "priceTable \<Rightarrow> pair \<Rightarrow> bool" where
  "inverse_of m k =
     (case map_of m k of
        Some l \<Rightarrow> map_of m (swap_pair k) = Some (invertList l)
      | None \<Rightarrow> False)"

definition all_dated :: "priceTable \<Rightarrow> bool" where
  "all_dated m = list_all (\<lambda>(k, l). strictly_dated l) m"

definition list_lookup :: "priceList \<Rightarrow> date option \<Rightarrow> priceResult" where
  "list_lookup priceList dt =
     (case dt of
        None \<Rightarrow> (if priceList = [] then (None, None)
                 else (Some (fst (last priceList)), Some (snd (last priceList))))
      | Some d \<Rightarrow>
          (let index = findIndex (\<lambda>(priceDate, rate). priceDate > d) priceList in
           if index > 0
           then (Some (fst (priceList ! nat (index - 1))), Some (snd (priceList ! nat (index - 1))))
           else (None, None)))"

definition price_on :: "date \<Rightarrow> string \<Rightarrow> string \<Rightarrow> rat \<Rightarrow> entry" where
  "price_on d base quote rate =
     PriceEntry \<lparr>price_date = d, price_currency = base,
                 price_amount = \<lparr>number = rate, currency = quote\<rparr>\<rparr>"

text \<open>A posting whose units were left out.\<close>

definition elided :: "string \<Rightarrow> int \<Rightarrow> Posting" where
  "elided a n =
     \<lparr>posting_account = a, posting_units = \<lparr>number = MISSING, currency = ''USD''\<rparr>,
      posting_cost = None, posting_price = None, posting_flag = None,
      posting_meta = \<lparr>filename = ''ledger'', lineno = n\<rparr>\<rparr>"

text \<open>A directive at a line of the ledger file, and an amount of dollars.\<close>

definition at_line :: "int \<Rightarrow> date \<Rightarrow> body \<Rightarrow> directive" where
  "at_line n d b = \<lparr>meta = \<lparr>filename = ''main.ledger'', lineno = n\<rparr>, date = d, body = b\<rparr>"

definition usd :: "rat \<Rightarrow> numval Amount" where
  "usd n = \<lparr>number = Dec n, currency = ''USD''\<rparr>"

text \<open>The strings a regular expression matches as a whole.\<close>

fun lang :: "regexp \<Rightarrow> string set" where
  "lang Fail = {}"
| "lang Empty = {[]}"
| "lang (Class P) = {[c] | c. P c}"
| "lang (Seq r s) = {u @ v | u v. u \<in> lang r \<and> v \<in> lang s}"
| "lang (Alt r s) = lang r \<union> lang s"
| "lang (Star r) = {concat ws | ws. set ws \<subseteq> lang r}"

section \<open>Properties of the decimal arithmetic\<close>

text \<open>
  The exponent of a non-zero number is the exponent of its leading digit, so that
  \<open>finalise\<close> keeps 20 significant digits; rounding changes a number by at most half a
  unit of its twentieth digit, and never to zero. The reciprocal that \<^verbatim>\<open>ONE.div\<close> returns
  is the exact one up to that: its product with the number differs from 1 by at most
  \<open>1 / (2 * 10 ^ 19)\<close>.
\<close>

lemma digits_pos: "0 < digits n"
proof (induction n rule: digits.induct)
  case (1 n)
  show ?case
  proof (cases "n < 10")
    case True
    then show ?thesis by (subst digits.simps) simp
  next
    case False
    then have "0 < digits (n div 10)" by (rule 1)
    then show ?thesis by (subst digits.simps) simp
  qed
qed

lemma digits_bounds: "0 < n \<Longrightarrow> 10 powi (digits n - 1) \<le> (of_int n :: rat) \<and> (of_int n :: rat) < 10 powi (digits n)"
proof (induction n rule: digits.induct)
  case (1 n)
  show ?case
  proof (cases "n < 10")
    case True
    have "(of_int n :: rat) < of_int 10" using True by (simp only: of_int_less_iff)
    moreover have "(of_int 1 :: rat) \<le> of_int n" using 1(2) by (simp only: of_int_le_iff)
    ultimately show ?thesis using True by (simp add: digits.simps[of n])
  next
    case False
    then have pos: "0 < n div 10" by simp
    let ?m = "n div 10"
    have ih: "10 powi (digits ?m - 1) \<le> (of_int ?m :: rat)" "(of_int ?m :: rat) < 10 powi (digits ?m)"
      using 1(1)[OF False pos] by simp_all
    have d: "digits n = 1 + digits ?m" using False by (simp add: digits.simps[of n])
    have p1: "(10::rat) powi (digits n - 1) = 10 * 10 powi (digits ?m - 1)"
      unfolding d using power_int_add[of "10::rat" 1 "digits ?m - 1"] by simp
    have p2: "(10::rat) powi (digits n) = 10 * 10 powi (digits ?m)"
      unfolding d using power_int_add[of "10::rat" 1 "digits ?m"] by simp
    have "10 * ?m \<le> n" by simp
    then have a: "(10::rat) * of_int ?m \<le> of_int n"
      by (metis of_int_le_iff of_int_mult of_int_numeral)
    obtain k where k: "10 powi (digits ?m) = (of_int k :: rat)"
      using digits_pos[of ?m] by (metis of_int_numeral of_int_power power_int_def less_imp_le)
    have "?m < k" using ih(2) unfolding k by simp
    then have "?m + 1 \<le> k" by simp
    moreover have "n < 10 * (?m + 1)" by presburger
    ultimately have "n < 10 * k" by simp
    then have "(of_int n :: rat) < of_int (10 * k)" by (simp only: of_int_less_iff)
    then have b: "(of_int n :: rat) < 10 * 10 powi (digits ?m)" by (simp add: k)
    show ?thesis using ih(1) a b unfolding p1 p2 by simp
  qed
qed

lemma power_int_integer:
  assumes "0 \<le> k"
  shows "(10::rat) powi k = of_int (10 ^ nat k)"
  using assms by (simp add: power_int_def)

lemma exponent_le:
  assumes "x \<noteq> 0"
  shows "10 powi exponent x \<le> \<bar>x\<bar>"
proof (cases "1 \<le> \<bar>x\<bar>")
  case True
  then have "1 \<le> \<lfloor>\<bar>x\<bar>\<rfloor>" by linarith
  then have "10 powi (digits \<lfloor>\<bar>x\<bar>\<rfloor> - 1) \<le> (of_int \<lfloor>\<bar>x\<bar>\<rfloor> :: rat)"
    using digits_bounds[of "\<lfloor>\<bar>x\<bar>\<rfloor>"] by simp
  also have "\<dots> \<le> \<bar>x\<bar>" by simp
  finally show ?thesis using True by (simp add: exponent_def)
next
  case False
  let ?n = "\<lceil>1 / \<bar>x\<bar>\<rceil> - 1"
  let ?k = "digits ?n"
  have xpos: "0 < \<bar>x\<bar>" using assms by simp
  have "1 < 1 / \<bar>x\<bar>" using False xpos by (simp add: field_simps)
  then have "1 < \<lceil>1 / \<bar>x\<bar>\<rceil>" by linarith
  then have npos: "0 < ?n" by simp
  have "(of_int ?n :: rat) < 10 powi ?k" using digits_bounds[OF npos] by simp
  then have "(of_int ?n :: rat) < of_int (10 ^ nat ?k)"
    using power_int_integer[of ?k] digits_pos[of ?n] by simp
  then have "?n < 10 ^ nat ?k" by (simp only: of_int_less_iff)
  then have "\<lceil>1 / \<bar>x\<bar>\<rceil> \<le> 10 ^ nat ?k" by simp
  then have "(of_int \<lceil>1 / \<bar>x\<bar>\<rceil> :: rat) \<le> of_int (10 ^ nat ?k)" by (simp only: of_int_le_iff)
  then have "1 / \<bar>x\<bar> \<le> 10 powi ?k"
    using power_int_integer[of ?k] digits_pos[of ?n] le_of_int_ceiling[of "1 / \<bar>x\<bar>"] by linarith
  moreover have kpos: "(0::rat) < 10 powi ?k" by (simp add: zero_less_power_int)
  ultimately have "1 / 10 powi ?k \<le> \<bar>x\<bar>" using xpos by (simp add: field_simps)
  moreover have "(10::rat) powi (- ?k) = 1 / 10 powi ?k"
    by (simp add: power_int_minus field_simps)
  ultimately show ?thesis using False by (simp add: exponent_def)
qed

lemma exponent_gt:
  assumes "x \<noteq> 0"
  shows "\<bar>x\<bar> < 10 powi (exponent x + 1)"
proof (cases "1 \<le> \<bar>x\<bar>")
  case True
  let ?n = "\<lfloor>\<bar>x\<bar>\<rfloor>"
  have npos: "0 < ?n" using True by linarith
  have "(of_int ?n :: rat) < 10 powi (digits ?n)" using digits_bounds[OF npos] by simp
  then have "(of_int ?n :: rat) < of_int (10 ^ nat (digits ?n))"
    using power_int_integer[of "digits ?n"] digits_pos[of ?n] by simp
  then have "?n < 10 ^ nat (digits ?n)" by (simp only: of_int_less_iff)
  then have "?n + 1 \<le> 10 ^ nat (digits ?n)" by simp
  then have "(of_int (?n + 1) :: rat) \<le> of_int (10 ^ nat (digits ?n))" by (simp only: of_int_le_iff)
  then have "(of_int ?n :: rat) + 1 \<le> 10 powi (digits ?n)"
    using power_int_integer[of "digits ?n"] digits_pos[of ?n] by simp
  moreover have "\<bar>x\<bar> < of_int ?n + 1" by linarith
  ultimately show ?thesis using True by (simp add: exponent_def)
next
  case False
  let ?n = "\<lceil>1 / \<bar>x\<bar>\<rceil> - 1"
  let ?k = "digits ?n"
  have xpos: "0 < \<bar>x\<bar>" using assms by simp
  have "1 < 1 / \<bar>x\<bar>" using False xpos by (simp add: field_simps)
  then have "1 < \<lceil>1 / \<bar>x\<bar>\<rceil>" by linarith
  then have npos: "0 < ?n" by simp
  have "10 powi (?k - 1) \<le> (of_int ?n :: rat)" using digits_bounds[OF npos] by simp
  moreover have "(of_int ?n :: rat) < 1 / \<bar>x\<bar>" by linarith
  ultimately have "10 powi (?k - 1) < 1 / \<bar>x\<bar>" by linarith
  moreover have kpos: "(0::rat) < 10 powi (?k - 1)" by (simp add: zero_less_power_int)
  ultimately have "\<bar>x\<bar> < 1 / 10 powi (?k - 1)" using xpos by (simp add: field_simps)
  moreover have "(10::rat) powi (- ?k + 1) = 1 / 10 powi (?k - 1)"
    using power_int_minus[of "10::rat" "?k - 1"] by (simp add: field_simps)
  ultimately show ?thesis using False by (simp add: exponent_def)
qed

lemma finalise_error:
  "\<bar>finalise x - x\<bar> \<le> \<bar>x\<bar> / (2 * 10 ^ 19)"
proof (cases "x = 0")
  case True
  then show ?thesis by (simp add: finalise_def)
next
  case False
  let ?sd = "precision - 1 - exponent x"
  let ?s = "(10::rat) powi ?sd"
  let ?y = "\<bar>x\<bar> * ?s"
  let ?f = "(of_int \<lfloor>?y + 1 / 2\<rfloor> :: rat)"
  let ?g = "(if x < 0 then - 1 else 1 :: rat)"
  have spos: "0 < ?s" by (simp add: zero_less_power_int)
  have fin: "finalise x = ?g * ?f / ?s"
    using False by (simp add: finalise_def Let_def)
  have x_eq: "x = ?g * ?y / ?s" using spos by (simp add: field_simps)
  have "finalise x - x = ?g * (?f - ?y) / ?s"
    by (subst fin, subst (3) x_eq) (simp add: field_simps)
  then have "\<bar>finalise x - x\<bar> = \<bar>?f - ?y\<bar> / ?s"
    using spos by (simp add: abs_mult)
  moreover have "\<bar>?f - ?y\<bar> / ?s \<le> (1 / 2) / ?s"
  proof (rule divide_right_mono)
    show "\<bar>?f - ?y\<bar> \<le> 1 / 2" by linarith
    show "0 \<le> ?s" using spos by simp
  qed
  ultimately have e1: "\<bar>finalise x - x\<bar> \<le> (1 / 2) / ?s"
    by (simp only:)
  have "?s * 10 powi exponent x = 10 powi (?sd + exponent x)"
    using power_int_add[of "10::rat" ?sd "exponent x"] by simp
  also have "\<dots> = 10 ^ 19" by (simp add: precision_def)
  finally have se: "?s * 10 powi exponent x = 10 ^ 19" .
  have "10 ^ 19 \<le> ?s * \<bar>x\<bar>"
    using exponent_le[OF False] spos se by (metis mult_left_mono less_imp_le)
  then have "1 / ?s \<le> \<bar>x\<bar> / 10 ^ 19"
    using spos by (simp add: field_simps)
  then show ?thesis using e1 by simp
qed

lemma finalise_zero_iff: "finalise x = 0 \<longleftrightarrow> x = 0"
proof
  assume f: "finalise x = 0"
  have "\<bar>finalise x - x\<bar> \<le> \<bar>x\<bar> / (2 * 10 ^ 19)" by (rule finalise_error)
  then have "\<bar>x\<bar> \<le> \<bar>x\<bar> / (2 * 10 ^ 19)" using f by simp
  then show "x = 0" by (simp add: field_simps)
qed (simp add: finalise_def)

lemma Decimal_div_reciprocal:
  assumes "r \<noteq> 0"
  shows "\<bar>r * Decimal_div 1 r - 1\<bar> \<le> 1 / (2 * 10 ^ 19)"
proof -
  have "\<bar>finalise (1 / r) - 1 / r\<bar> \<le> \<bar>1 / r\<bar> / (2 * 10 ^ 19)" by (rule finalise_error)
  then have "\<bar>r\<bar> * \<bar>finalise (1 / r) - 1 / r\<bar> \<le> \<bar>r\<bar> * (\<bar>1 / r\<bar> / (2 * 10 ^ 19))"
    by (rule mult_left_mono) simp
  moreover have "\<bar>r\<bar> * \<bar>finalise (1 / r) - 1 / r\<bar> = \<bar>r * finalise (1 / r) - 1\<bar>"
    using assms by (simp add: abs_mult[symmetric] right_diff_distrib)
  moreover have "\<bar>r\<bar> * (\<bar>1 / r\<bar> / (2 * 10 ^ 19)) = 1 / (2 * 10 ^ 19)"
    using assms by (simp add: abs_mult[symmetric])
  ultimately show ?thesis by (simp add: Decimal_div_def)
qed

section \<open>Properties of the amounts\<close>

text \<open>
  C10. For two Amounts of one currency of which at least one has a number that is not a
  Decimal (the \<^verbatim>\<open>MISSING\<close> sentinel or \<^verbatim>\<open>null\<close>), \<^verbatim>\<open>add\<close> and \<^verbatim>\<open>sub\<close> do not throw and
  return an Amount of that currency whose number is the Decimal zero.
\<close>

theorem add_sub_not_decimal_zero:
  assumes "currency amount1 = currency amount2"
    and "\<not> isDecimalInstance (number amount1) \<or> \<not> isDecimalInstance (number amount2)"
  shows "add amount1 amount2 = Inr \<lparr>number = Dec 0, currency = currency amount1\<rparr>
       \<and> sub amount1 amount2 = Inr \<lparr>number = Dec 0, currency = currency amount1\<rparr>"
proof -
  have "(case (number amount1, number amount2) of
           (Dec a, Dec b) \<Rightarrow> Dec (Decimal_plus a b)
         | (Dec a, NonFinite) \<Rightarrow> NonFinite
         | (NonFinite, Dec b) \<Rightarrow> NonFinite
         | (NonFinite, NonFinite) \<Rightarrow> NonFinite
         | _ \<Rightarrow> Dec 0) = Dec 0"
    using assms(2) by (cases "number amount1"; cases "number amount2") simp_all
  moreover have "(case (number amount1, number amount2) of
           (Dec a, Dec b) \<Rightarrow> Dec (Decimal_minus a b)
         | (Dec a, NonFinite) \<Rightarrow> NonFinite
         | (NonFinite, Dec b) \<Rightarrow> NonFinite
         | (NonFinite, NonFinite) \<Rightarrow> NonFinite
         | _ \<Rightarrow> Dec 0) = Dec 0"
    using assms(2) by (cases "number amount1"; cases "number amount2") simp_all
  ultimately show ?thesis
    using assms(1) by (simp add: add_def sub_def)
qed

theorem add_sub_not_decimal_zero_witness:
  "add \<lparr>number = MISSING, currency = ''USD''\<rparr> \<lparr>number = Dec 5, currency = ''USD''\<rparr>
     = Inr \<lparr>number = Dec 0, currency = ''USD''\<rparr>
   \<and> sub \<lparr>number = MISSING, currency = ''USD''\<rparr> \<lparr>number = Dec 5, currency = ''USD''\<rparr>
     = Inr \<lparr>number = Dec 0, currency = ''USD''\<rparr>"
  using add_sub_not_decimal_zero
    [of "\<lparr>number = MISSING, currency = ''USD''\<rparr>" "\<lparr>number = Dec 5, currency = ''USD''\<rparr>"]
  by simp

section \<open>Properties of the inventory\<close>

lemma Decimal_eq_ZERO: "Decimal_eq x ZERO \<longleftrightarrow> x = 0"
  by (simp add: Decimal_eq_def ZERO_def)

text \<open>
  What \<^verbatim>\<open>addAmount\<close> does on a key that is not in the inventory, and on a key that is.
\<close>

lemma addAmount_absent:
  assumes "map_of this (inventory_key u c) = None"
  shows "addAmount u c this =
           (if number u = 0 then (Inr (None, IGNORED), this)
            else (Inr (None, CREATED),
                  AList.update (inventory_key u c) \<lparr>units = u, cost = c\<rparr> this))"
  using assms by (simp add: addAmount_def Decimal_eq_ZERO)

lemma addAmount_present:
  assumes "map_of this (inventory_key u c) = Some p"
  shows "addAmount u c this = (Inl TypeError, this)"
  using assms by (simp add: addAmount_def same_sign_def)

text \<open>
  C1. The claim is that \<^verbatim>\<open>addAmount\<close> returns IGNORED or CREATED for a key that is not
  in the inventory, and for a key that is in it returns the stored position with REDUCED
  or AUGMENTED, sums the numbers and removes the key when the sum is zero. The first
  half is what the method does (\<open>addAmount_absent\<close>): on the empty inventory, adding
  0 USD is IGNORED and adding 10 USD is CREATED. On a key that is in the inventory the
  method throws a TypeError and changes nothing: on an inventory that holds 10 USD,
  adding 5 USD and adding -5 USD both throw, where the claim has AUGMENTED with 15 USD
  and REDUCED with 5 USD; on an inventory that holds 10 HOOL of the lot of 2023-01-01,
  adding 5 HOOL of that lot throws.
\<close>

theorem addAmount_present_throws:
  "addAmount \<lparr>number = 0, currency = ''USD''\<rparr> None [] = (Inr (None, IGNORED), [])
   \<and> addAmount \<lparr>number = 10, currency = ''USD''\<rparr> None []
     = (Inr (None, CREATED),
        [((''USD'', None), \<lparr>units = \<lparr>number = 10, currency = ''USD''\<rparr>, cost = None\<rparr>)])
   \<and> addAmount \<lparr>number = 5, currency = ''USD''\<rparr> None
        [((''USD'', None), \<lparr>units = \<lparr>number = 10, currency = ''USD''\<rparr>, cost = None\<rparr>)]
     = (Inl TypeError,
        [((''USD'', None), \<lparr>units = \<lparr>number = 10, currency = ''USD''\<rparr>, cost = None\<rparr>)])
   \<and> addAmount \<lparr>number = - 5, currency = ''USD''\<rparr> None
        [((''USD'', None), \<lparr>units = \<lparr>number = 10, currency = ''USD''\<rparr>, cost = None\<rparr>)]
     = (Inl TypeError,
        [((''USD'', None), \<lparr>units = \<lparr>number = 10, currency = ''USD''\<rparr>, cost = None\<rparr>)])
   \<and> addAmount \<lparr>number = 10, currency = ''HOOL''\<rparr> (Some lot) []
     = (Inr (None, CREATED),
        [((''HOOL'', Some (100, ''USD'', Some 19358, Some ''lot1'')),
          \<lparr>units = \<lparr>number = 10, currency = ''HOOL''\<rparr>, cost = Some lot\<rparr>)])
   \<and> addAmount \<lparr>number = 5, currency = ''HOOL''\<rparr> (Some lot)
        [((''HOOL'', Some (100, ''USD'', Some 19358, Some ''lot1'')),
          \<lparr>units = \<lparr>number = 10, currency = ''HOOL''\<rparr>, cost = Some lot\<rparr>)]
     = (Inl TypeError,
        [((''HOOL'', Some (100, ''USD'', Some 19358, Some ''lot1'')),
          \<lparr>units = \<lparr>number = 10, currency = ''HOOL''\<rparr>, cost = Some lot\<rparr>)])"
  by (simp add: addAmount_def inventory_key_def cost_toString_def isoDay_def lot_def
                same_sign_def Decimal_eq_def ZERO_def)

lemma set_update_subset: "set (AList.update k v al) \<subseteq> insert (k, v) (set al)"
  by (induct al) auto

lemma set_delete_subset: "set (AList.delete k al) \<subseteq> set al"
  by (auto simp: AList.delete_eq)

lemma inventory_ok_addAmount:
  assumes "inventory_ok this"
  shows "inventory_ok (snd (addAmount u c this))"
proof -
  let ?k = "inventory_key u c"
  have d: "distinct (map fst this)" and
       a: "\<And>key pos. (key, pos) \<in> set this \<Longrightarrow> key = position_key pos \<and> number (units pos) \<noteq> 0"
    using assms by (auto simp: inventory_ok_def list_all_iff)
  show ?thesis
  proof (cases "map_of this ?k")
    case None
    show ?thesis
    proof (cases "number u = 0")
      case True
      with None assms show ?thesis by (simp add: addAmount_absent)
    next
      case False
      have "snd (addAmount u c this) = AList.update ?k \<lparr>units = u, cost = c\<rparr> this"
        using None False by (simp add: addAmount_absent)
      moreover have "inventory_ok (AList.update ?k \<lparr>units = u, cost = c\<rparr> this)"
        using d a False
        by (auto simp: inventory_ok_def list_all_iff AList.distinct_update position_key_def
                 dest!: set_mp[OF set_update_subset] split: if_splits)
      ultimately show ?thesis by simp
    qed
  next
    case (Some p)
    with assms show ?thesis by (simp add: addAmount_present)
  qed
qed

lemma inventory_ok_addPositions:
  "inventory_ok this \<Longrightarrow> inventory_ok (snd (addPositions ps this))"
proof (induction ps arbitrary: this)
  case Nil
  then show ?case by simp
next
  case (Cons p ps)
  have ok: "inventory_ok (snd (addPosition p this))"
    using Cons.prems by (simp add: addPosition_def inventory_ok_addAmount)
  obtain r this' where r: "addPosition p this = (r, this')" by (cases "addPosition p this")
  with ok have ok': "inventory_ok this'" by simp
  show ?case
  proof (cases r)
    case (Inl e)
    with r ok' show ?thesis by simp
  next
    case (Inr x)
    with r Cons.IH[OF ok'] show ?thesis by simp
  qed
qed

lemma inventory_ok_added:
  "inventory_ok acc \<Longrightarrow> added (addAmount u c acc) = Inr acc' \<Longrightarrow> inventory_ok acc'"
  using inventory_ok_addAmount[of acc u c]
  by (cases "addAmount u c acc") (auto simp: added_def split: sum.splits)

lemma inventory_ok_average_group:
  assumes "inventory_ok acc" and "average_group ps acc = Inr acc'"
  shows "inventory_ok acc'"
  using assms
  by (auto simp: average_group_def Let_def
           split: sum.splits scalar.splits if_splits list.splits
           intro: inventory_ok_added)

lemma inventory_ok_fold_average_group:
  "inventory_ok acc \<Longrightarrow> foldE average_group gs acc = Inr acc' \<Longrightarrow> inventory_ok acc'"
proof (induction gs arbitrary: acc)
  case Nil
  then show ?case by simp
next
  case (Cons g gs)
  from Cons.prems(2) obtain acc1 where g: "average_group g acc = Inr acc1"
    and f: "foldE average_group gs acc1 = Inr acc'"
    by (auto split: sum.splits)
  have "inventory_ok acc1" using Cons.prems(1) g by (rule inventory_ok_average_group)
  then show ?case using f by (rule Cons.IH)
qed

lemma inventory_ok_average: "average this = Inr this' \<Longrightarrow> inventory_ok this'"
  unfolding average_def
  by (rule inventory_ok_fold_average_group[of "[]"]) (simp_all add: inventory_ok_def)

lemma inventory_ok_addInventory:
  "inventory_ok this \<Longrightarrow> inventory_ok (snd (addInventory other this))"
  by (auto simp: addInventory_def inventory_ok_addPositions split: list.splits)

lemma reachable_inventory_ok: "reachable this \<Longrightarrow> inventory_ok this"
proof (induction rule: reachable.induct)
  case reach_empty
  show ?case by (simp add: inventory_ok_def)
next
  case (reach_addAmount this u c)
  then show ?case by (simp add: inventory_ok_addAmount)
next
  case (reach_addPosition this p)
  then show ?case by (simp add: addPosition_def inventory_ok_addAmount)
next
  case (reach_addInventory this other)
  then show ?case by (simp add: inventory_ok_addInventory)
next
  case (reach_average this this')
  then show ?case by (simp add: inventory_ok_average)
qed

lemma inventory_ok_keys:
  assumes "inventory_ok this"
  shows "map position_key (getPositions this) = map fst this"
  using assms by (induction this) (auto simp: inventory_ok_def getPositions_def)

text \<open>
  C3. Every inventory that a sequence of \<^verbatim>\<open>addAmount\<close>, \<^verbatim>\<open>addPosition\<close>,
  \<^verbatim>\<open>addInventory\<close> and \<^verbatim>\<open>average\<close> builds from the empty inventory passes
  \<^verbatim>\<open>checkInvariants\<close>: no stored position has zero units, and no two stored positions
  have the same key of units currency and cost.
\<close>

theorem reachable_invariants:
  assumes "reachable this"
  shows "checkInvariants this = Inr True
       \<and> list_all (\<lambda>pos. number (units pos) \<noteq> 0) (getPositions this)
       \<and> distinct (map position_key (getPositions this))"
proof -
  have ok: "inventory_ok this" using assms by (rule reachable_inventory_ok)
  have keys: "map position_key (getPositions this) = map fst this"
    using ok by (rule inventory_ok_keys)
  have d: "distinct (map position_key (getPositions this))"
    using ok keys by (simp add: inventory_ok_def)
  have nz: "list_all (\<lambda>pos. number (units pos) \<noteq> 0) (getPositions this)"
    using ok by (auto simp: inventory_ok_def list_all_iff getPositions_def)
  have "length (remdups (map position_key (getPositions this))) = length this"
    using d by (simp add: distinct_remdups_id getPositions_def)
  moreover have "\<not> list_ex (\<lambda>pos. Decimal_eq (number (units pos)) ZERO) (getPositions this)"
    using nz by (auto simp: list_all_iff list_ex_iff Decimal_eq_ZERO)
  ultimately have "checkInvariants this = Inr True"
    by (simp add: checkInvariants_def Let_def)
  with nz d show ?thesis by simp
qed

theorem reachable_invariants_witness:
  "reachable (snd (addAmount \<lparr>number = 5, currency = ''USD''\<rparr> None []))
   \<and> checkInvariants (snd (addAmount \<lparr>number = 5, currency = ''USD''\<rparr> None [])) = Inr True
   \<and> list_all (\<lambda>pos. number (units pos) \<noteq> 0)
        (getPositions (snd (addAmount \<lparr>number = 5, currency = ''USD''\<rparr> None [])))
   \<and> distinct (map position_key
        (getPositions (snd (addAmount \<lparr>number = 5, currency = ''USD''\<rparr> None []))))"
proof -
  have r: "reachable (snd (addAmount \<lparr>number = 5, currency = ''USD''\<rparr> None []))"
    by (rule reach_addAmount) (rule reach_empty)
  show ?thesis using r reachable_invariants [OF r] by simp
qed

text \<open>
  The inventories that the operations build are all the association lists with distinct
  keys in which every position is stored under its own key and has units that are not
  zero: each of them is built by one \<^verbatim>\<open>addAmount\<close> for each of its positions, in their
  order.
\<close>

lemma inventory_ok_reachable:
  "inventory_ok this \<Longrightarrow> reachable this"
proof (induction this rule: rev_induct)
  case Nil
  show ?case by (rule reach_empty)
next
  case (snoc x xs)
  obtain k p where x: "x = (k, p)" by (cases x)
  from snoc.prems x have okxs: "inventory_ok xs" and kp: "k = position_key p"
    and nz: "number (units p) \<noteq> 0" and fresh: "k \<notin> fst ` set xs"
    by (auto simp: inventory_ok_def)
  have r: "reachable xs" using okxs by (rule snoc.IH)
  have none: "map_of xs (inventory_key (units p) (cost p)) = None"
    using fresh kp by (simp add: map_of_eq_None_iff position_key_def)
  have upd: "AList.update k p xs = xs @ [(k, p)]"
    using fresh by (induction xs) auto
  have p: "\<lparr>units = units p, cost = cost p\<rparr> = p" by simp
  have "snd (addAmount (units p) (cost p) xs)
        = AList.update (inventory_key (units p) (cost p)) \<lparr>units = units p, cost = cost p\<rparr> xs"
    using none nz by (simp add: addAmount_absent)
  then have "snd (addAmount (units p) (cost p) xs) = xs @ [(k, p)]"
    unfolding p using upd kp by (simp add: position_key_def)
  then show ?case
    using reach_addAmount[OF r, of "units p" "cost p"] x by simp
qed

text \<open>
  \<^verbatim>\<open>average\<close> returns the empty inventory for the empty inventory and throws for every
  other one.
\<close>

lemma average_group_throws: "average_group ps acc = Inl TypeError"
  by (cases ps) (simp_all add: average_group_def ZERO_def scalar_plus_def)

lemma average_empty: "average [] = Inr []"
  by (simp add: average_def average_groups_def getPositions_def)

text \<open>
  C8. The claim is that \<^verbatim>\<open>addAmount(x)\<close> followed by \<^verbatim>\<open>addAmount(-x)\<close> leaves the
  inventory as it was. On the empty inventory and 5 USD, the first call stores 5 USD, and
  the second call, which finds that position under its key, throws a TypeError before it
  changes anything: the inventory is left holding 5 USD.
\<close>

theorem addAmount_negated_throws:
  "addAmount \<lparr>number = 5, currency = ''USD''\<rparr> None []
     = (Inr (None, CREATED),
        [((''USD'', None), \<lparr>units = \<lparr>number = 5, currency = ''USD''\<rparr>, cost = None\<rparr>)])
   \<and> negated \<lparr>number = 5, currency = ''USD''\<rparr> = \<lparr>number = - 5, currency = ''USD''\<rparr>
   \<and> addAmount (negated \<lparr>number = 5, currency = ''USD''\<rparr>) None
        (snd (addAmount \<lparr>number = 5, currency = ''USD''\<rparr> None []))
     = (Inl TypeError,
        [((''USD'', None), \<lparr>units = \<lparr>number = 5, currency = ''USD''\<rparr>, cost = None\<rparr>)])
   \<and> snd (addAmount (negated \<lparr>number = 5, currency = ''USD''\<rparr>) None
            (snd (addAmount \<lparr>number = 5, currency = ''USD''\<rparr> None []))) \<noteq> []"
  by (simp add: addAmount_def inventory_key_def negated_def same_sign_def Decimal_eq_def ZERO_def)

text \<open>
  So it is for every amount that is not zero and every key that is not in the inventory:
  the two calls leave the inventory with one position more.
\<close>

lemma addAmount_negated_absent:
  assumes "map_of this (inventory_key u c) = None" and "number u \<noteq> 0"
  shows "snd (addAmount (negated u) c (snd (addAmount u c this)))
         = AList.update (inventory_key u c) \<lparr>units = u, cost = c\<rparr> this"
proof -
  let ?k = "inventory_key u c"
  let ?this' = "AList.update ?k \<lparr>units = u, cost = c\<rparr> this"
  have first: "snd (addAmount u c this) = ?this'"
    using assms by (simp add: addAmount_absent)
  have k: "inventory_key (negated u) c = ?k"
    by (simp add: inventory_key_def negated_def)
  have "map_of ?this' (inventory_key (negated u) c) = Some \<lparr>units = u, cost = c\<rparr>"
    unfolding k by (simp add: AList.update_conv')
  then have "addAmount (negated u) c ?this' = (Inl TypeError, ?this')"
    by (rule addAmount_present)
  with first show ?thesis by simp
qed

section \<open>Properties of the price map\<close>

lemma findIndex_takeWhile:
  "findIndex P l = (if \<exists>x\<in>set l. P x then int (length (takeWhile (\<lambda>x. \<not> P x) l)) else - 1)"
  by (induction l) (auto simp: Let_def)

lemma takeWhile_filter_sorted:
  "sorted (map fst l) \<Longrightarrow>
   takeWhile (\<lambda>x. \<not> (case x of (t, r) \<Rightarrow> (d::int) < t)) l = filter (\<lambda>(t, r). t \<le> d) l"
proof (induction l)
  case Nil
  show ?case by simp
next
  case (Cons a l)
  obtain t r where a: "a = (t, r)" by (cases a)
  show ?case
  proof (cases "t \<le> d")
    case True
    with Cons a show ?thesis by simp
  next
    case False
    then have "\<forall>x\<in>set l. \<not> fst x \<le> d"
      using Cons.prems a by auto
    then have "filter (\<lambda>(t, r). t \<le> d) l = []"
      by (auto simp: filter_empty_conv)
    with False a show ?thesis by simp
  qed
qed

lemma nth_length_takeWhile_last:
  "takeWhile Q l \<noteq> [] \<Longrightarrow> l ! (length (takeWhile Q l) - 1) = last (takeWhile Q l)"
proof -
  assume ne: "takeWhile Q l \<noteq> []"
  have "last (takeWhile Q l) = takeWhile Q l ! (length (takeWhile Q l) - 1)"
    using ne by (rule last_conv_nth)
  also have "\<dots> = l ! (length (takeWhile Q l) - 1)"
    using ne by (intro takeWhile_nth) simp
  finally show ?thesis by simp
qed

lemma dated_lookup:
  assumes "sorted (map fst l)"
  shows "(let index = findIndex (\<lambda>(priceDate, rate). priceDate > d) l in
          if index > 0 then (Some (fst (l ! nat (index - 1))), Some (snd (l ! nat (index - 1))))
          else (None, None))
       = (if \<exists>(t, r)\<in>set l. d < t then latest_on_or_before l d else (None, None))"
proof (cases "\<exists>x\<in>set l. (case x of (t, r) \<Rightarrow> d < t)")
  case False
  then have "findIndex (\<lambda>(priceDate, rate). priceDate > d) l = - 1"
    by (simp add: findIndex_takeWhile)
  with False show ?thesis by (simp add: Let_def)
next
  case True
  let ?tw = "takeWhile (\<lambda>x. \<not> (case x of (t, r) \<Rightarrow> d < t)) l"
  have idx: "findIndex (\<lambda>(priceDate, rate). priceDate > d) l = int (length ?tw)"
    using True by (simp add: findIndex_takeWhile)
  have tw: "?tw = filter (\<lambda>(t, r). t \<le> d) l"
    using assms by (rule takeWhile_filter_sorted)
  show ?thesis
  proof (cases "?tw = []")
    case True
    with idx tw \<open>\<exists>x\<in>set l. _\<close> show ?thesis
      by (simp add: Let_def latest_on_or_before_def)
  next
    case False
    then have pos: "0 < length ?tw" by simp
    have "l ! nat (int (length ?tw) - 1) = last ?tw"
      using nth_length_takeWhile_last[OF False] pos
      by (simp add: nat_diff_distrib')
    moreover obtain e es where "filter (\<lambda>(t, r). t \<le> d) l = e # es"
      using False tw by (cases "filter (\<lambda>(t, r). t \<le> d) l") auto
    ultimately show ?thesis
      using idx tw pos True by (simp add: Let_def latest_on_or_before_def)
  qed
qed


lemma findIndex_prefix_hit:
  "\<exists>y\<in>set pre. P y \<Longrightarrow> findIndex P (pre @ zs) < int (length pre)"
  by (induction pre) (auto simp: Let_def)

lemma findIndex_prefix_miss:
  "\<forall>y\<in>set pre. \<not> P y \<Longrightarrow> P x \<Longrightarrow> findIndex P (pre @ x # xs) = int (length pre)"
  by (induction pre) (auto simp: Let_def)

lemma first_of_date_iff:
  "(int (length pre) = findIndex (\<lambda>t. fst t = fst x) (pre @ x # xs))
   = (fst x \<notin> fst ` set pre)"
proof (cases "fst x \<in> fst ` set pre")
  case True
  then obtain y where "y \<in> set pre" and "fst x = fst y" by (rule imageE)
  then have "\<exists>y\<in>set pre. fst y = fst x" by (intro bexI[of _ y]) simp_all
  then have "findIndex (\<lambda>t. fst t = fst x) (pre @ x # xs) < int (length pre)"
    by (rule findIndex_prefix_hit)
  with True show ?thesis by simp
next
  case False
  then have "\<forall>y\<in>set pre. \<not> fst y = fst x" by (metis image_eqI)
  then have "findIndex (\<lambda>t. fst t = fst x) (pre @ x # xs) = int (length pre)"
    by (rule findIndex_prefix_miss) simp
  with False show ?thesis by simp
qed

lemma unique_filter_distinct:
  "distinct (map fst (map snd (filter
       (\<lambda>(index, item). int index = findIndex (\<lambda>t. fst t = fst item) (pre @ xs))
       (enumerate (length pre) xs))))
   \<and> fst ` set (map snd (filter
       (\<lambda>(index, item). int index = findIndex (\<lambda>t. fst t = fst item) (pre @ xs))
       (enumerate (length pre) xs))) \<inter> fst ` set pre = {}"
proof (induction xs arbitrary: pre)
  case Nil
  show ?case by simp
next
  case (Cons x xs)
  have tl: "enumerate (Suc (length pre)) xs = enumerate (length (pre @ [x])) xs"
    and app: "pre @ x # xs = (pre @ [x]) @ xs" by simp_all
  note IH = Cons.IH[of "pre @ [x]", folded tl, folded app]
  show ?case
  proof (cases "fst x \<in> fst ` set pre")
    case True
    then show ?thesis
      using IH by (auto simp add: first_of_date_iff simp del: append_assoc)
  next
    case False
    then show ?thesis
      using IH by (auto simp add: first_of_date_iff simp del: append_assoc)
  qed
qed

lemma sorted_wrt_enumerate_filter:
  "sorted_wrt R (map f xs) \<Longrightarrow> sorted_wrt R (map f (map snd (filter Q (enumerate n xs))))"
proof (induction xs arbitrary: n)
  case Nil
  show ?case by simp
next
  case (Cons x xs)
  have sub: "set (map snd (filter Q (enumerate (Suc n) xs))) \<subseteq> set xs"
    by (auto simp: in_set_enumerate_eq)
  from Cons show ?case using sub by (auto simp: subset_iff)
qed

lemma strictly_dated_sortedUnique: "strictly_dated (sortedUnique l)"
proof -
  let ?self = "sort_key fst l"
  let ?u = "map snd (filter (\<lambda>(index, item). int index = findIndex (\<lambda>t. fst t = fst item) ?self)
                       (enumerate 0 ?self))"
  have "sorted (map fst ?self)" by simp
  then have "sorted (map fst ?u)" by (rule sorted_wrt_enumerate_filter)
  moreover have "distinct (map fst ?u)"
    using unique_filter_distinct[of "[]" ?self] by simp
  moreover have "sortedUnique l = ?u"
    by (simp add: sortedUnique_def Let_def)
  ultimately show ?thesis
    by (simp only: strictly_dated_def strict_sorted_iff)
qed

lemma map_fst_invertList: "map fst (invertList l) = map fst (filter (\<lambda>(d, rate). rate \<noteq> 0) l)"
  by (induction l) (auto simp: invertList_def)

lemma strictly_dated_invertList: "strictly_dated l \<Longrightarrow> strictly_dated (invertList l)"
  unfolding strictly_dated_def map_fst_invertList
  by (induction l) auto

lemma filter_invertList:
  "filter (\<lambda>(t, r). t \<le> d) (invertList l) = invertList (filter (\<lambda>(t, r). t \<le> (d::int)) l)"
  by (induction l) (auto simp: invertList_def)

lemma invertList_snoc:
  "invertList (ys @ [(t, r)])
     = (if r = 0 then invertList ys else invertList ys @ [(t, Decimal_div 1 r)])"
  by (simp add: invertList_def)

lemma last_invertList:
  assumes "l \<noteq> []" and "snd (last l) \<noteq> 0"
  shows "invertList l \<noteq> []
       \<and> last (invertList l) = (fst (last l), Decimal_div 1 (snd (last l)))"
proof -
  obtain ys t r where l: "l = ys @ [(t, r)]"
    using assms(1) by (metis rev_exhaust surj_pair)
  with assms(2) show ?thesis by (simp add: invertList_snoc)
qed

lemma exists_later_invertList:
  "\<exists>(t, r)\<in>set (invertList l). (d::int) < t \<Longrightarrow> \<exists>(t, r)\<in>set l. d < t"
  by (auto simp: invertList_def)


lemma getPrice_found:
  "map_of m (b, q) = Some l \<Longrightarrow> q \<noteq> [] \<Longrightarrow> b \<noteq> q \<Longrightarrow> getPrice m (b, q) dt = list_lookup l dt"
  by (cases dt)
     (simp_all add: getPrice_def getLatestPrice_def lookupPriceAndInverse_def list_lookup_def)

lemma list_lookup_dated:
  "strictly_dated l \<Longrightarrow>
   list_lookup l (Some d)
     = (if \<exists>(t, r)\<in>set l. d < t then latest_on_or_before l d else (None, None))"
  unfolding list_lookup_def option.case
  by (rule dated_lookup) (simp add: strictly_dated_def strict_sorted_imp_sorted)

lemma latest_on_or_before_Some:
  assumes "latest_on_or_before l d = (t, Some r)"
  shows "filter (\<lambda>(t, r). t \<le> d) l \<noteq> []
       \<and> t = Some (fst (last (filter (\<lambda>(t, r). t \<le> d) l)))
       \<and> r = snd (last (filter (\<lambda>(t, r). t \<le> d) l))"
  using assms by (auto simp: latest_on_or_before_def split: list.splits)

lemma list_lookup_reciprocal:
  assumes sd: "strictly_dated l"
    and l1: "list_lookup l dt = (t1, Some r1)"
    and nz: "r1 \<noteq> 0"
    and l2: "list_lookup (invertList l) dt = (t2, Some r2)"
  shows "t2 = t1 \<and> r2 = Decimal_div 1 r1"
proof (cases dt)
  case None
  from l1 None have ne: "l \<noteq> []" and t1: "t1 = Some (fst (last l))" and r1: "r1 = snd (last l)"
    by (auto simp: list_lookup_def split: if_splits)
  from last_invertList[OF ne] nz r1
  have "invertList l \<noteq> []" and "last (invertList l) = (fst (last l), Decimal_div 1 r1)"
    by simp_all
  with l2 None t1 show ?thesis by (simp add: list_lookup_def)
next
  case (Some d)
  let ?f = "filter (\<lambda>(t, r). t \<le> d) l"
  have sd': "strictly_dated (invertList l)" using sd by (rule strictly_dated_invertList)
  from l1 Some have a: "latest_on_or_before l d = (t1, Some r1)"
    by (simp add: list_lookup_dated[OF sd] split: if_splits)
  from l2 Some have b: "latest_on_or_before (invertList l) d = (t2, Some r2)"
    by (simp add: list_lookup_dated[OF sd'] split: if_splits)
  from latest_on_or_before_Some[OF a]
  have ne: "?f \<noteq> []" and t1: "t1 = Some (fst (last ?f))" and r1: "r1 = snd (last ?f)" by simp_all
  from last_invertList[OF ne] nz r1
  have li: "last (invertList ?f) = (fst (last ?f), Decimal_div 1 r1)" by simp
  from latest_on_or_before_Some[OF b]
  have "t2 = Some (fst (last (invertList ?f)))" and "r2 = snd (last (invertList ?f))"
    by (simp_all add: filter_invertList)
  with li t1 show ?thesis by simp
qed

lemma setInverse_establishes:
  "setInverse k m = Inr m1 \<Longrightarrow> fst k \<noteq> snd k \<Longrightarrow> inverse_of m1 k"
  by (cases k)
     (auto simp: setInverse_def inverse_of_def swap_pair_def AList.update_conv'
           split: option.splits)

lemma setInverse_preserves:
  assumes "fst k \<noteq> snd k"
    and "inverse_of m k \<or> inverse_of m (swap_pair k)"
    and "setInverse x m = Inr m1"
  shows "inverse_of m1 k \<or> inverse_of m1 (swap_pair k)"
proof -
  obtain b q where x: "x = (b, q)" by (cases x)
  obtain l where l: "map_of m x = Some l" and m1: "m1 = AList.update (q, b) (invertList l) m"
    using assms(3) x by (auto simp: setInverse_def split: option.splits)
  have sw: "swap_pair (swap_pair k) = k" by (simp add: swap_pair_def)
  consider "x = k" | "x = swap_pair k" | "x \<noteq> k" "x \<noteq> swap_pair k" by blast
  then show ?thesis
  proof cases
    case 1
    then have "inverse_of m1 k"
      using assms(3) assms(1) by (auto intro: setInverse_establishes)
    then show ?thesis by simp
  next
    case 2
    then have "fst x \<noteq> snd x" using assms(1) by (auto simp: swap_pair_def)
    then have "inverse_of m1 x" by (rule setInverse_establishes[OF assms(3)])
    with 2 show ?thesis by simp
  next
    case 3
    then have "(q, b) \<noteq> k" and "(q, b) \<noteq> swap_pair k"
      using x by (auto simp: swap_pair_def)
    then have e1: "map_of m1 k = map_of m k"
      and e2: "map_of m1 (swap_pair k) = map_of m (swap_pair k)"
      by (simp_all add: m1 AList.update_conv')
    have "inverse_of m1 k = inverse_of m k"
      unfolding inverse_of_def e1 e2 by (rule refl)
    moreover have "inverse_of m1 (swap_pair k) = inverse_of m (swap_pair k)"
      unfolding inverse_of_def sw e1 e2 by (rule refl)
    ultimately show ?thesis using assms(2) by simp
  qed
qed

lemma foldE_setInverse_preserves:
  "foldE setInverse ks m = Inr m' \<Longrightarrow> fst k \<noteq> snd k \<Longrightarrow>
   inverse_of m k \<or> inverse_of m (swap_pair k) \<Longrightarrow>
   inverse_of m' k \<or> inverse_of m' (swap_pair k)"
proof (induction ks arbitrary: m)
  case Nil
  then show ?case by simp
next
  case (Cons x xs)
  from Cons.prems(1) obtain m1 where s: "setInverse x m = Inr m1" and f: "foldE setInverse xs m1 = Inr m'"
    by (auto split: sum.splits)
  from setInverse_preserves[OF Cons.prems(2) Cons.prems(3) s]
  show ?case by (rule Cons.IH[OF f Cons.prems(2)])
qed

lemma foldE_setInverse_forward:
  "foldE setInverse ks m = Inr m' \<Longrightarrow> k \<in> set ks \<Longrightarrow> fst k \<noteq> snd k \<Longrightarrow>
   inverse_of m' k \<or> inverse_of m' (swap_pair k)"
proof (induction ks arbitrary: m)
  case Nil
  then show ?case by simp
next
  case (Cons x xs)
  from Cons.prems(1) obtain m1 where s: "setInverse x m = Inr m1" and f: "foldE setInverse xs m1 = Inr m'"
    by (auto split: sum.splits)
  show ?case
  proof (cases "k = x")
    case True
    with s Cons.prems(3) have "inverse_of m1 k" by (auto intro: setInverse_establishes)
    then show ?thesis using foldE_setInverse_preserves[OF f Cons.prems(3)] by simp
  next
    case False
    with Cons.prems(2) have "k \<in> set xs" by simp
    then show ?thesis using Cons.IH[OF f _ Cons.prems(3)] by simp
  qed
qed

lemma foldE_setInverse_keys:
  "foldE setInverse ks m = Inr m' \<Longrightarrow> fst ` set m' = fst ` set m \<union> swap_pair ` set ks"
proof (induction ks arbitrary: m)
  case Nil
  then show ?case by simp
next
  case (Cons x xs)
  from Cons.prems(1) obtain m1 where s: "setInverse x m = Inr m1" and f: "foldE setInverse xs m1 = Inr m'"
    by (auto split: sum.splits)
  obtain b q where x: "x = (b, q)" by (cases x)
  obtain l where m1: "m1 = AList.update (q, b) (invertList l) m"
    using s x by (auto simp: setInverse_def split: option.splits)
  have "fst ` set m1 = insert (swap_pair x) (fst ` set m)"
    unfolding m1 AList.dom_update by (simp add: x swap_pair_def)
  with Cons.IH[OF f] show ?case by auto
qed

lemma foldE_setInverse_dated:
  "foldE setInverse ks m = Inr m' \<Longrightarrow> all_dated m \<Longrightarrow> all_dated m'"
proof (induction ks arbitrary: m)
  case Nil
  then show ?case by simp
next
  case (Cons x xs)
  from Cons.prems(1) obtain m1 where s: "setInverse x m = Inr m1" and f: "foldE setInverse xs m1 = Inr m'"
    by (auto split: sum.splits)
  obtain b q where x: "x = (b, q)" by (cases x)
  obtain l where l: "map_of m x = Some l" and m1: "m1 = AList.update (q, b) (invertList l) m"
    using s x by (auto simp: setInverse_def split: option.splits)
  have "(x, l) \<in> set m" using l by (rule map_of_SomeD)
  then have "strictly_dated l" using Cons.prems(2) by (auto simp: all_dated_def list_all_iff)
  then have "strictly_dated (invertList l)" by (rule strictly_dated_invertList)
  then have "all_dated m1"
    using Cons.prems(2) set_update_subset[of "(q, b)" "invertList l" m]
    by (auto simp: all_dated_def list_all_iff m1)
  then show ?case by (rule Cons.IH[OF f])
qed

lemma buildPriceMap_table:
  assumes "buildPriceMap entries = Inr pm"
  shows "\<exists>m0. foldE setInverse (map fst m0) m0 = Inr (table pm) \<and> all_dated m0"
proof -
  let ?pm0 = "fold pushPrice (priceEntries entries) []"
  obtain pm1 where "foldE mergeInverse (inversedUnits ?pm0) ?pm0 = Inr pm1"
    and rest: "(let sortedPriceMap = map (\<lambda>(baseQuote, dateRates). (baseQuote, sortedUnique dateRates)) pm1;
                    fwd = map fst sortedPriceMap
                in case foldE setInverse fwd sortedPriceMap of
                     Inl e \<Rightarrow> Inl e
                   | Inr m \<Rightarrow> Inr \<lparr>table = m, forwardPairs = fwd\<rparr>) = Inr pm"
    using assms by (auto simp: buildPriceMap_def Let_def split: sum.splits)
  let ?m0 = "map (\<lambda>(baseQuote, dateRates). (baseQuote, sortedUnique dateRates)) pm1"
  have "foldE setInverse (map fst ?m0) ?m0 = Inr (table pm)"
    using rest by (auto simp: Let_def split: sum.splits)
  moreover have "all_dated ?m0"
    by (auto simp: all_dated_def list_all_iff strictly_dated_sortedUnique)
  ultimately show ?thesis by blast
qed


lemma getPrice_rate_found:
  "getPrice m (b, q) dt = (t, Some r) \<Longrightarrow> b \<noteq> q \<Longrightarrow> q \<noteq> [] \<Longrightarrow>
   map_of m (b, q) \<noteq> None \<or> map_of m (q, b) \<noteq> None"
  by (cases dt)
     (auto simp: getPrice_def getLatestPrice_def lookupPriceAndInverse_def
           split: option.splits if_splits)

lemma built_table_dated:
  assumes "buildPriceMap entries = Inr pm" and "map_of (table pm) k = Some l"
  shows "strictly_dated l"
proof -
  obtain m0 where f: "foldE setInverse (map fst m0) m0 = Inr (table pm)" and d: "all_dated m0"
    using buildPriceMap_table[OF assms(1)] by blast
  have "all_dated (table pm)" using f d by (rule foldE_setInverse_dated)
  moreover have "(k, l) \<in> set (table pm)" using assms(2) by (rule map_of_SomeD)
  ultimately show ?thesis by (auto simp: all_dated_def list_all_iff)
qed

lemma built_table_inverse:
  assumes "buildPriceMap entries = Inr pm" and "A \<noteq> B"
    and "map_of (table pm) (A, B) \<noteq> None \<or> map_of (table pm) (B, A) \<noteq> None"
  shows "inverse_of (table pm) (A, B) \<or> inverse_of (table pm) (B, A)"
proof -
  obtain m0 where f: "foldE setInverse (map fst m0) m0 = Inr (table pm)"
    using buildPriceMap_table[OF assms(1)] by blast
  have "fst ` set (table pm) = fst ` set m0 \<union> swap_pair ` set (map fst m0)"
    using f by (rule foldE_setInverse_keys)
  then have keys: "fst ` set (table pm) = set (map fst m0) \<union> swap_pair ` set (map fst m0)"
    by simp
  have "(A, B) \<in> fst ` set (table pm) \<or> (B, A) \<in> fst ` set (table pm)"
    using assms(3) by (auto simp: map_of_eq_None_iff)
  then have "(A, B) \<in> set (map fst m0) \<or> (B, A) \<in> set (map fst m0)"
    unfolding keys swap_pair_def by (elim disjE UnE imageE) simp_all
  then show ?thesis
  proof
    assume "(A, B) \<in> set (map fst m0)"
    from foldE_setInverse_forward[OF f this] assms(2)
    show ?thesis by (simp add: swap_pair_def)
  next
    assume "(B, A) \<in> set (map fst m0)"
    from foldE_setInverse_forward[OF f this] assms(2)
    show ?thesis by (auto simp: swap_pair_def)
  qed
qed

text \<open>
  C7 (amended). For a price map that \<^verbatim>\<open>buildPriceMap\<close> returns, two currencies (strings
  that are not empty) and a date (or none): when the lookups of the pair and of its
  inverse both return a rate and both rates are non-zero, the two lookups return the same
  date and the two rates are reciprocal up to the decimal precision: one of them is
  \<^verbatim>\<open>ONE.div\<close> of the other, its reciprocal rounded to 20 significant digits, so that their
  product differs from 1 by at most \<open>1 / (2 * 10 ^ 19)\<close>.
\<close>

theorem inverse_rates_reciprocal:
  assumes "buildPriceMap entries = Inr pm"
    and "A \<noteq> []" and "B \<noteq> []"
    and "getPrice (table pm) (A, B) dt = (t1, Some r1)"
    and "getPrice (table pm) (B, A) dt = (t2, Some r2)"
    and "r1 \<noteq> 0" and "r2 \<noteq> 0"
  shows "t1 = t2
       \<and> (r1 = Decimal_div 1 r2 \<or> r2 = Decimal_div 1 r1)
       \<and> \<bar>r1 * r2 - 1\<bar> \<le> 1 / (2 * 10 ^ 19)"
proof (cases "A = B")
  case True
  with assms(4,5) have "t1 = t2" and "r1 = 1" and "r2 = 1"
    by (cases dt; simp add: getPrice_def getLatestPrice_def)+
  moreover have "Decimal_div 1 1 = 1" by code_simp
  ultimately show ?thesis by simp
next
  case False
  let ?m = "table pm"
  have "map_of ?m (A, B) \<noteq> None \<or> map_of ?m (B, A) \<noteq> None"
    using getPrice_rate_found[OF assms(4) False assms(3)] .
  then have "inverse_of ?m (A, B) \<or> inverse_of ?m (B, A)"
    by (rule built_table_inverse[OF assms(1) False])
  then show ?thesis
  proof
    assume "inverse_of ?m (A, B)"
    then obtain l where l: "map_of ?m (A, B) = Some l"
      and li: "map_of ?m (B, A) = Some (invertList l)"
      by (auto simp: inverse_of_def swap_pair_def split: option.splits)
    have sd: "strictly_dated l" using assms(1) l by (rule built_table_dated)
    have g1: "list_lookup l dt = (t1, Some r1)"
      using getPrice_found[OF l assms(3) False, of dt] assms(4) by simp
    have g2: "list_lookup (invertList l) dt = (t2, Some r2)"
      using getPrice_found[OF li assms(2) False[symmetric], of dt] assms(5) by simp
    from list_lookup_reciprocal[OF sd g1 assms(6) g2]
    have t: "t2 = t1" and r: "r2 = Decimal_div 1 r1" by simp_all
    have "\<bar>r1 * Decimal_div 1 r1 - 1\<bar> \<le> 1 / (2 * 10 ^ 19)"
      using assms(6) by (rule Decimal_div_reciprocal)
    with t r show ?thesis by simp
  next
    assume "inverse_of ?m (B, A)"
    then obtain l where l: "map_of ?m (B, A) = Some l"
      and li: "map_of ?m (A, B) = Some (invertList l)"
      by (auto simp: inverse_of_def swap_pair_def split: option.splits)
    have sd: "strictly_dated l" using assms(1) l by (rule built_table_dated)
    have g1: "list_lookup l dt = (t2, Some r2)"
      using getPrice_found[OF l assms(2) False[symmetric], of dt] assms(5) by simp
    have g2: "list_lookup (invertList l) dt = (t1, Some r1)"
      using getPrice_found[OF li assms(3) False, of dt] assms(4) by simp
    from list_lookup_reciprocal[OF sd g1 assms(7) g2]
    have t: "t1 = t2" and r: "r1 = Decimal_div 1 r2" by simp_all
    have "\<bar>r2 * Decimal_div 1 r2 - 1\<bar> \<le> 1 / (2 * 10 ^ 19)"
      using assms(7) by (rule Decimal_div_reciprocal)
    with t r show ?thesis by (simp add: mult.commute)
  qed
qed

text \<open>
  With A priced in B at 5, 0 and 7 on days 1, 2 and 3, the list of (B, A) holds 1/5 for
  day 1 and, for day 3, the 20 digits 0.14285714285714285714 of 1/7: the latest rates
  of the two pairs are 7 and that number, whose product is not 1.
\<close>

theorem inverse_rates_reciprocal_witness:
  "buildPriceMap [price_on 1 ''A'' ''B'' 5, price_on 2 ''A'' ''B'' 0, price_on 3 ''A'' ''B'' 7]
     = Inr \<lparr>table = [((''A'', ''B''), [(1, 5), (2, 0), (3, 7)]),
                      ((''B'', ''A''), [(1, 1 / 5), (3, 14285714285714285714 / 10 ^ 20)])],
            forwardPairs = [(''A'', ''B'')]\<rparr>
   \<and> getPrice [((''A'', ''B''), [(1, 5), (2, 0), (3, 7)]),
                ((''B'', ''A''), [(1, 1 / 5), (3, 14285714285714285714 / 10 ^ 20)])]
        (''A'', ''B'') None
       = (Some 3, Some 7)
   \<and> getPrice [((''A'', ''B''), [(1, 5), (2, 0), (3, 7)]),
                ((''B'', ''A''), [(1, 1 / 5), (3, 14285714285714285714 / 10 ^ 20)])]
        (''B'', ''A'') None
       = (Some 3, Some (14285714285714285714 / 10 ^ 20))
   \<and> (14285714285714285714 / 10 ^ 20 :: rat) = Decimal_div 1 7
   \<and> \<bar>7 * (14285714285714285714 / 10 ^ 20) - 1 :: rat\<bar> \<le> 1 / (2 * 10 ^ 19)
   \<and> (7 * (14285714285714285714 / 10 ^ 20) :: rat) \<noteq> 1"
proof -
  let ?es = "[price_on 1 ''A'' ''B'' 5, price_on 2 ''A'' ''B'' 0, price_on 3 ''A'' ''B'' 7]"
  let ?q = "14285714285714285714 / 10 ^ 20 :: rat"
  let ?t = "[((''A'', ''B''), [(1, 5), (2, 0), (3, 7)]),
             ((''B'', ''A''), [(1::int, 1 / 5 :: rat), (3, ?q)])]"
  have b: "buildPriceMap ?es = Inr \<lparr>table = ?t, forwardPairs = [(''A'', ''B'')]\<rparr>"
    by code_simp
  have g1: "getPrice (table \<lparr>table = ?t, forwardPairs = [(''A'', ''B'')]\<rparr>) (''A'', ''B'') None
            = (Some 3, Some 7)"
    by code_simp
  have g2: "getPrice (table \<lparr>table = ?t, forwardPairs = [(''A'', ''B'')]\<rparr>) (''B'', ''A'') None
            = (Some 3, Some ?q)"
    by code_simp
  have q: "?q = Decimal_div 1 7" by code_simp
  have n: "7 * ?q \<noteq> 1" by simp
  have "Some (3::int) = Some 3 \<and> (7 = Decimal_div 1 ?q \<or> ?q = Decimal_div 1 7)
        \<and> \<bar>7 * ?q - 1\<bar> \<le> 1 / (2 * 10 ^ 19)"
    using inverse_rates_reciprocal [OF b _ _ g1 g2] by simp
  with b g1 g2 q n show ?thesis by simp
qed


text \<open>
  C7 as stated fails: a rate of zero is skipped when a list is inverted, so at the date
  of a zero rate the inverse pair still answers with the entry before it. With A priced
  in B at 5, 0 and 7 on days 1, 2 and 3, the lookup of (B, A) on day 2 is defined with
  the non-zero rate 1/5, and the lookup of (A, B) on day 2 returns the rate 0, which is
  not its reciprocal 5, nor near it.
\<close>

theorem inverse_rates_counterexample:
  "buildPriceMap [price_on 1 ''A'' ''B'' 5, price_on 2 ''A'' ''B'' 0, price_on 3 ''A'' ''B'' 7]
     = Inr \<lparr>table = [((''A'', ''B''), [(1, 5), (2, 0), (3, 7)]),
                      ((''B'', ''A''), [(1, 1 / 5), (3, 14285714285714285714 / 10 ^ 20)])],
            forwardPairs = [(''A'', ''B'')]\<rparr>
   \<and> getPrice [((''A'', ''B''), [(1, 5), (2, 0), (3, 7)]),
                ((''B'', ''A''), [(1, 1 / 5), (3, 14285714285714285714 / 10 ^ 20)])]
        (''B'', ''A'') (Some 2)
       = (Some 1, Some (1 / 5))
   \<and> getPrice [((''A'', ''B''), [(1, 5), (2, 0), (3, 7)]),
                ((''B'', ''A''), [(1, 1 / 5), (3, 14285714285714285714 / 10 ^ 20)])]
        (''A'', ''B'') (Some 2)
       = (Some 2, Some 0)
   \<and> (0::rat) \<noteq> 1 / (1 / 5)
   \<and> \<bar>(0::rat) - 1 / (1 / 5)\<bar> = 5"
  by code_simp

text \<open>
  In a list of strictly increasing dates the entry that \<open>latest_on_or_before\<close> returns
  is in the list, is dated on or before the day asked for, and no entry dated on or
  before that day is later.
\<close>

lemma sorted_le_last:
  "sorted (map f xs) \<Longrightarrow> xs \<noteq> [] \<Longrightarrow> \<forall>x\<in>set xs. f x \<le> f (last xs)"
proof (induction xs)
  case Nil
  then show ?case by simp
next
  case (Cons a xs)
  show ?case
  proof (cases "xs = []")
    case True
    then show ?thesis by simp
  next
    case False
    then have "last xs \<in> set xs" by simp
    then have "f a \<le> f (last xs)" using Cons.prems(1) by simp
    moreover have "\<forall>x\<in>set xs. f x \<le> f (last xs)"
      using Cons.IH Cons.prems(1) False by simp
    ultimately show ?thesis using False by simp
  qed
qed

lemma latest_on_or_before_greatest:
  assumes "strictly_dated l" and "latest_on_or_before l d = (Some t, Some r)"
  shows "(t, r) \<in> set l \<and> t \<le> d \<and> (\<forall>(t', r')\<in>set l. t' \<le> d \<longrightarrow> t' \<le> t)"
proof -
  let ?f = "filter (\<lambda>(t, r). t \<le> d) l"
  from latest_on_or_before_Some[OF assms(2)]
  have ne: "?f \<noteq> []" and lst: "last ?f = (t, r)" by (simp_all add: prod_eq_iff)
  have mem: "(t, r) \<in> set ?f" using last_in_set[OF ne] lst by simp
  have "sorted (map fst l)" using assms(1) by (simp add: strictly_dated_def strict_sorted_imp_sorted)
  then have sf: "sorted (map fst ?f)" by (induction l) auto
  have "\<forall>x\<in>set ?f. fst x \<le> fst (last ?f)"
    using sf ne by (rule sorted_le_last)
  then have "\<forall>x\<in>set ?f. fst x \<le> t" using lst by simp
  then show ?thesis using mem by auto
qed

text \<open>
  C2 (amended). For a price map that \<^verbatim>\<open>buildPriceMap\<close> returns and a pair of two
  different currencies (the quote currency not the empty string): the list found for the pair has strictly increasing dates; with
  no date \<^verbatim>\<open>getPrice\<close> returns the last entry of that list, or \<^verbatim>\<open>(null, null)\<close> when it is
  empty; with a date \<open>d\<close> before the date of some entry of the list it returns the entry
  with the greatest date less than or equal to \<open>d\<close>, or \<^verbatim>\<open>(null, null)\<close> when no entry is
  dated on or before \<open>d\<close>; for a pair not in the map it returns \<^verbatim>\<open>(null, null)\<close>.
\<close>

theorem getPrice_latest_on_or_before:
  assumes "buildPriceMap entries = Inr pm" and "base \<noteq> quote" and "quote \<noteq> []"
  shows "case lookupPriceAndInverse (table pm) (base, quote) of
           Inl e \<Rightarrow> getPrice (table pm) (base, quote) dt = (None, None)
         | Inr l \<Rightarrow>
             strictly_dated l
             \<and> getPrice (table pm) (base, quote) None
                 = (if l = [] then (None, None) else (Some (fst (last l)), Some (snd (last l))))
             \<and> (\<forall>d. (\<exists>(t, r)\<in>set l. d < t) \<longrightarrow>
                  getPrice (table pm) (base, quote) (Some d) = latest_on_or_before l d)"
proof (cases "lookupPriceAndInverse (table pm) (base, quote)")
  case (Inl e)
  then show ?thesis using assms(2,3)
    by (cases dt) (simp_all add: getPrice_def getLatestPrice_def)
next
  case (Inr l)
  then obtain k where k: "map_of (table pm) k = Some l"
    by (auto simp: lookupPriceAndInverse_def split: option.splits)
  have sd: "strictly_dated l" using assms(1) k by (rule built_table_dated)
  have g: "\<And>dt. getPrice (table pm) (base, quote) dt = list_lookup l dt"
    using Inr assms(2,3)
    by (simp add: getPrice_def getLatestPrice_def list_lookup_def split: option.splits)
  show ?thesis
    using Inr sd by (simp add: g list_lookup_dated) (simp add: list_lookup_def)
qed


theorem getPrice_latest_on_or_before_witness:
  "buildPriceMap [price_on 1 ''A'' ''B'' 2, price_on 3 ''A'' ''B'' 4]
     = Inr \<lparr>table = [((''A'', ''B''), [(1, 2), (3, 4)]), ((''B'', ''A''), [(1, 1 / 2), (3, 1 / 4)])],
            forwardPairs = [(''A'', ''B'')]\<rparr>
   \<and> ''A'' \<noteq> ''B'' \<and> ''B'' \<noteq> []
   \<and> getPrice [((''A'', ''B''), [(1, 2), (3, 4)]), ((''B'', ''A''), [(1, 1 / 2), (3, 1 / 4)])]
        (''A'', ''B'') (Some 2) = latest_on_or_before [(1, 2), (3, 4)] 2
   \<and> latest_on_or_before [(1, 2), (3, 4)] 2 = (Some 1, Some 2)
   \<and> getPrice [((''A'', ''B''), [(1, 2), (3, 4)]), ((''B'', ''A''), [(1, 1 / 2), (3, 1 / 4)])]
        (''A'', ''B'') None = (Some 3, Some 4)"
proof -
  let ?es = "[price_on 1 ''A'' ''B'' 2, price_on 3 ''A'' ''B'' 4]"
  let ?t = "[((''A'', ''B''), [(1::int, 2::rat), (3, 4)]),
             ((''B'', ''A''), [(1::int, 1 / 2 :: rat), (3, 1 / 4)])]"
  let ?pm = "\<lparr>table = ?t, forwardPairs = [(''A'', ''B'')]\<rparr>"
  have b: "buildPriceMap ?es = Inr ?pm" by code_simp
  have ne: "''A'' \<noteq> ''B''" and nq: "''B'' \<noteq> []" by simp_all
  have lk: "lookupPriceAndInverse (table ?pm) (''A'', ''B'') = Inr [(1, 2), (3, 4)]"
    by code_simp
  have later: "\<exists>(t, r)\<in>set [(1::int, 2::rat), (3, 4)]. 2 < t" by simp
  have lob: "latest_on_or_before [(1, 2), (3, 4)] 2 = (Some 1, Some 2)" by code_simp
  from getPrice_latest_on_or_before [OF b ne nq, of None]
  have "getPrice (table ?pm) (''A'', ''B'') None = (Some 3, Some 4)
        \<and> (\<forall>d. (\<exists>(t, r)\<in>set [(1::int, 2::rat), (3, 4)]. d < t) \<longrightarrow>
              getPrice (table ?pm) (''A'', ''B'') (Some d) = latest_on_or_before [(1, 2), (3, 4)] d)"
    unfolding lk by simp
  with later b lob show ?thesis by simp
qed

text \<open>
  C2 as stated fails: an entry dated on the very day asked for is returned, although its
  date is not strictly less. With A priced in B at 2 on day 1 and at 4 on day 3, the
  lookup on day 1 returns the entry of day 1, where the specification's lookup has no
  entry to return.
\<close>

theorem getPrice_strictly_less_counterexample:
  "buildPriceMap [price_on 1 ''A'' ''B'' 2, price_on 3 ''A'' ''B'' 4]
     = Inr \<lparr>table = [((''A'', ''B''), [(1, 2), (3, 4)]), ((''B'', ''A''), [(1, 1 / 2), (3, 1 / 4)])],
            forwardPairs = [(''A'', ''B'')]\<rparr>
   \<and> getPrice [((''A'', ''B''), [(1, 2), (3, 4)]), ((''B'', ''A''), [(1, 1 / 2), (3, 1 / 4)])]
        (''A'', ''B'') (Some 1) = (Some 1, Some 2)
   \<and> spec_get_price [(1, 2), (3, 4)] 1 = (None, None)"
  by code_simp

section \<open>Properties of the interpolation\<close>

text \<open>
  The loop of \<^verbatim>\<open>interpolateGroup\<close> throws a TypeError at its first posting, so the
  function throws for every group that is not empty.
\<close>

lemma scanPosting_throws: "scanPosting ip incomplete = Inl TypeError"
  by (cases ip) (simp add: scanPosting_def instanceof_CostSpec_def CostSpec_class_def Let_def)

lemma interpolateGroup_throws:
  assumes "postings \<noteq> []"
  shows "interpolateGroup postings balances c tolerances = Inl TypeError"
proof -
  obtain p ps where "postings = p # ps" using assms by (cases postings) auto
  then show ?thesis by (simp add: interpolateGroup_def scanPosting_throws)
qed

text \<open>
  C6. The claim is that a currency group with more than one missing field yields exactly
  one \<^verbatim>\<open>InterpolationError\<close> that cites "Too many missing numbers" and no postings. On
  the two postings of the specification's scenario, which both omit their units,
  \<^verbatim>\<open>interpolateGroup\<close> returns no error list: it throws a TypeError.
\<close>

theorem too_many_missing_throws:
  "missing_fields (elided ''Expenses:Food'' 3) = [UNITS]
   \<and> missing_fields (elided ''Assets:Cash'' 4) = [UNITS]
   \<and> interpolateGroup [elided ''Expenses:Food'' 3, elided ''Assets:Cash'' 4] () ''USD'' ()
       = Inl TypeError"
  by (simp add: missing_fields_def elided_def interpolateGroup_def scanPosting_def
                instanceof_CostSpec_def CostSpec_class_def Let_def)

section \<open>Properties of the order of the entries\<close>

text \<open>
  The order of \<^verbatim>\<open>sortEntries\<close> is total and transitive, and \<^verbatim>\<open>sortEntries\<close> returns a list
  in which every entry is before every later one in that order.
\<close>

lemma sort_key_le_total: "sort_key_le a b \<or> sort_key_le b a"
  by (auto simp: sort_key_le_def compareEntries_def split: prod.splits)

lemma sort_key_le_trans: "sort_key_le a b \<Longrightarrow> sort_key_le b c \<Longrightarrow> sort_key_le a c"
  by (auto simp: sort_key_le_def compareEntries_def split: prod.splits if_splits)

lemma set_insertBy: "set (insertBy cmp x xs) = insert x (set xs)"
  by (induction xs) auto

lemma sorted_insertBy:
  "sorted_wrt sort_key_le xs \<Longrightarrow> sorted_wrt sort_key_le (insertBy compareEntries x xs)"
proof (induction xs)
  case Nil
  show ?case by simp
next
  case (Cons y ys)
  show ?case
  proof (cases "compareEntries x y \<le> 0")
    case True
    then have xy: "sort_key_le x y" by (simp add: sort_key_le_def)
    have "\<forall>z\<in>set ys. sort_key_le x z"
      using Cons.prems xy by (auto intro: sort_key_le_trans)
    with True xy Cons.prems show ?thesis by simp
  next
    case False
    then have "sort_key_le y x"
      using sort_key_le_total[of x y] by (simp add: sort_key_le_def)
    with False Cons show ?thesis by (auto simp: set_insertBy)
  qed
qed

lemma sortEntries_sorted: "sorted_wrt sort_key_le (sortEntries entries)"
  unfolding sortEntries_def sortBy_def
  by (induction entries) (simp_all add: sorted_insertBy)

text \<open>
  C4. The claim is that the loader leaves the merged entries ordered by
  (date, rank, line number), the rank being -2 for Open, -1 for Balance, 1 for Document,
  2 for Close and 0 otherwise. The loader sorts by the date alone: a transaction on line
  10 and a balance assertion on line 20 of the same day stay in that order, though the
  key of the balance assertion, with rank -1, is the smaller one. \<^verbatim>\<open>sortEntries\<close>, which
  the loader does not call, puts the balance assertion first.
\<close>

theorem load_sort_ignores_rank:
  "load_sort [at_line 10 2 (Transaction ''*'' None ''Lunch'' [] [] []),
              at_line 20 2 (Balance ''Assets:Cash'' (usd 100) None)]
     = [at_line 10 2 (Transaction ''*'' None ''Lunch'' [] [] []),
        at_line 20 2 (Balance ''Assets:Cash'' (usd 100) None)]
   \<and> entrySortKey (at_line 10 2 (Transaction ''*'' None ''Lunch'' [] [] [])) = (2, 0, 10)
   \<and> entrySortKey (at_line 20 2 (Balance ''Assets:Cash'' (usd 100) None)) = (2, - 1, 20)
   \<and> \<not> sort_key_le (at_line 10 2 (Transaction ''*'' None ''Lunch'' [] [] []))
                     (at_line 20 2 (Balance ''Assets:Cash'' (usd 100) None))
   \<and> sortEntries [at_line 10 2 (Transaction ''*'' None ''Lunch'' [] [] []),
                  at_line 20 2 (Balance ''Assets:Cash'' (usd 100) None)]
     = [at_line 20 2 (Balance ''Assets:Cash'' (usd 100) None),
        at_line 10 2 (Transaction ''*'' None ''Lunch'' [] [] [])]"
  by (simp add: load_sort_def sortBy_def sortEntries_def sort_key_le_def compareEntries_def
                entrySortKey_def at_line_def)

section \<open>Properties of the pad processor\<close>

text \<open>Whenever there is an entry, \<^verbatim>\<open>pad\<close> throws a TypeError.\<close>

lemma pad_throws:
  assumes "entries \<noteq> []"
  shows "pad entries optionsMap = Inl TypeError"
proof -
  obtain e es where "entries = e # es" using assms by (cases entries) auto
  then show ?thesis by (simp add: pad_def instanceof_Pad_def Pad_class_def)
qed

text \<open>
  The loop over the accounts that have a Pad throws as soon as there is one such account.
\<close>

lemma padAccount_throws:
  "padDict \<noteq> [] \<Longrightarrow> foldE padAccount padDict st = Inl TypeError"
  by (cases padDict) (simp_all add: padAccount_def split: prod.splits)

text \<open>
  C5. The claim is that a Pad followed by a failing Balance of the padded account yields
  a synthetic transaction of two postings spliced in after the Pad, and that an unused
  Pad yields a PadError. On the ledger of the claim's own scenario (two accounts opened,
  a Pad of Assets:Bank from Equity:Opening, a Balance of 500 USD a month later) \<^verbatim>\<open>pad\<close>
  returns nothing: it throws a TypeError.
\<close>

theorem pad_scenario_throws:
  "pad [at_line 1 1 (Open ''Assets:Bank'' None None),
        at_line 2 1 (Open ''Equity:Opening'' None None),
        at_line 3 1 (Pad ''Assets:Bank'' ''Equity:Opening''),
        at_line 4 32 (Balance ''Assets:Bank'' (usd 500) None)] ()
   = Inl TypeError"
  by (simp add: pad_def instanceof_Pad_def Pad_class_def)

section \<open>Properties of the account names\<close>


section \<open>The anchored expression of core/account.js\<close>

text \<open>
  The matcher by derivatives accepts a string exactly when the string is in the language
  of the expression; the language of the anchored \<^verbatim>\<open>ACCOUNT_RE\<close> is a type component
  followed by one or more name components, each after a colon; and no component holds
  a colon, so that splitting at the colons gives the components back.
\<close>

lemma nullable_iff: "nullable r \<longleftrightarrow> [] \<in> lang r"
proof (induction r)
  case (Star r)
  have "\<exists>ws. (\<forall>xs\<in>set ws. xs = []) \<and> set ws \<subseteq> lang r"
    by (rule exI[of _ "[]"]) simp
  then show ?case by simp
qed auto

lemma star_cons:
  "(c # w \<in> {concat ws | ws. set ws \<subseteq> L})
   \<longleftrightarrow> (\<exists>u v. c # u \<in> L \<and> v \<in> {concat ws | ws. set ws \<subseteq> L} \<and> w = u @ v)"
proof
  assume "c # w \<in> {concat ws | ws. set ws \<subseteq> L}"
  then obtain ws where ws: "c # w = concat ws" "set ws \<subseteq> L" by blast
  then show "\<exists>u v. c # u \<in> L \<and> v \<in> {concat ws | ws. set ws \<subseteq> L} \<and> w = u @ v"
  proof (induction ws)
    case Nil
    then show ?case by simp
  next
    case (Cons x xs)
    show ?case
    proof (cases x)
      case Nil
      with Cons show ?thesis by simp
    next
      case (Cons a u)
      with Cons.prems have "a = c" and "w = u @ concat xs" and "c # u \<in> L" and "set xs \<subseteq> L"
        by auto
      then show ?thesis by blast
    qed
  qed
next
  assume "\<exists>u v. c # u \<in> L \<and> v \<in> {concat ws | ws. set ws \<subseteq> L} \<and> w = u @ v"
  then obtain u ws where "c # u \<in> L" "set ws \<subseteq> L" "w = u @ concat ws" by blast
  then have "c # w = concat ((c # u) # ws) \<and> set ((c # u) # ws) \<subseteq> L" by simp
  then show "c # w \<in> {concat ws | ws. set ws \<subseteq> L}" by blast
qed

lemma deriv_lang: "w \<in> lang (deriv c r) \<longleftrightarrow> c # w \<in> lang r"
proof (induction r arbitrary: w)
  case (Seq r s)
  have "c # w \<in> lang (Seq r s)
        \<longleftrightarrow> ([] \<in> lang r \<and> c # w \<in> lang s) \<or> (\<exists>u v. c # u \<in> lang r \<and> v \<in> lang s \<and> w = u @ v)"
    by (auto simp: Cons_eq_append_conv)
  with Seq show ?case by (auto simp: nullable_iff)
next
  case (Star r)
  have "w \<in> lang (deriv c (Star r))
        \<longleftrightarrow> (\<exists>u v. u \<in> lang (deriv c r) \<and> v \<in> lang (Star r) \<and> w = u @ v)"
    by auto
  also have "\<dots> \<longleftrightarrow> (\<exists>u v. c # u \<in> lang r \<and> v \<in> lang (Star r) \<and> w = u @ v)"
    using Star by simp
  also have "\<dots> \<longleftrightarrow> c # w \<in> lang (Star r)"
    using star_cons[of c w "lang r"] by simp
  finally show ?case .
qed auto

lemma matches_iff: "matches r s \<longleftrightarrow> s \<in> lang r"
  by (induction s arbitrary: r) (simp_all add: nullable_iff deriv_lang)


lemma lang_Star_Class: "lang (Star (Class P)) = {w. list_all P w}"
proof (intro set_eqI iffI)
  fix w assume "w \<in> lang (Star (Class P))"
  then obtain ws where w: "w = concat ws" and ws: "set ws \<subseteq> {[c] | c. P c}" by auto
  from ws have "list_all P (concat ws)"
    by (induction ws) auto
  with w show "w \<in> {w. list_all P w}" by simp
next
  fix w assume "w \<in> {w. list_all P w}"
  then have "w = concat (map (\<lambda>c. [c]) w) \<and> set (map (\<lambda>c. [c]) w) \<subseteq> {[c] | c. P c}"
    by (induction w) auto
  then show "w \<in> lang (Star (Class P))" unfolding lang.simps by blast
qed

lemma lang_component:
  "lang (Seq (Class Q) (Star (Class P))) = {w. case w of [] \<Rightarrow> False | c # cs \<Rightarrow> Q c \<and> list_all P cs}"
proof (intro set_eqI iffI)
  fix w assume "w \<in> lang (Seq (Class Q) (Star (Class P)))"
  then obtain c v where "w = [c] @ v" "Q c" "list_all P v"
    unfolding lang.simps(4) lang_Star_Class by auto
  then show "w \<in> {w. case w of [] \<Rightarrow> False | c # cs \<Rightarrow> Q c \<and> list_all P cs}" by simp
next
  fix w assume "w \<in> {w. case w of [] \<Rightarrow> False | c # cs \<Rightarrow> Q c \<and> list_all P cs}"
  then obtain c cs where "w = [c] @ cs" "Q c" "list_all P cs"
    by (cases w) auto
  then have "\<exists>u v. w = u @ v \<and> u \<in> lang (Class Q) \<and> v \<in> lang (Star (Class P))"
    unfolding lang_Star_Class by (intro exI[of _ "[c]"] exI[of _ cs]) simp
  then show "w \<in> lang (Seq (Class Q) (Star (Class P)))"
    unfolding lang.simps(4) by blast
qed

lemma lang_type: "lang ACC_COMP_TYPE_RE = {w. type_component w}"
  unfolding ACC_COMP_TYPE_RE_def lang_component type_component_def
  by (auto simp: tail_char_def list_all_iff split: list.splits)

lemma lang_name: "lang ACC_COMP_NAME_RE = {w. name_component w}"
  unfolding ACC_COMP_NAME_RE_def lang_component name_component_def
  by (auto simp: tail_char_def list_all_iff split: list.splits)

lemma lang_sep_name:
  "lang (Seq (Class (\<lambda>c. c = sep)) ACC_COMP_NAME_RE) = {sep # n | n. name_component n}"
  by (auto simp: lang_name)

lemma lang_Plus: "lang (Plus r) = {concat ws | ws. ws \<noteq> [] \<and> set ws \<subseteq> lang r}"
proof (intro set_eqI iffI)
  fix w assume "w \<in> lang (Plus r)"
  then obtain u ws where "w = u @ concat ws" "u \<in> lang r" "set ws \<subseteq> lang r"
    by (auto simp: Plus_def)
  then have "w = concat (u # ws) \<and> u # ws \<noteq> [] \<and> set (u # ws) \<subseteq> lang r" by simp
  then show "w \<in> {concat ws | ws. ws \<noteq> [] \<and> set ws \<subseteq> lang r}" by blast
next
  fix w assume "w \<in> {concat ws | ws. ws \<noteq> [] \<and> set ws \<subseteq> lang r}"
  then obtain ws where w: "w = concat ws" and ne: "ws \<noteq> []" and sub: "set ws \<subseteq> lang r" by blast
  then obtain u us where "ws = u # us" by (cases ws) auto
  with w sub have "w = u @ concat us" "u \<in> lang r" "set us \<subseteq> lang r" by auto
  then show "w \<in> lang (Plus r)" unfolding Plus_def lang.simps by blast
qed

lemma lang_ACCOUNT_RE:
  "s \<in> lang ACCOUNT_RE
   \<longleftrightarrow> (\<exists>t ns. s = t @ concat (map ((#) sep) ns) \<and> type_component t \<and> ns \<noteq> []
                \<and> list_all name_component ns)"
proof
  assume "s \<in> lang ACCOUNT_RE"
  then have "s \<in> lang (Seq ACC_COMP_TYPE_RE (Plus (Seq (Class (\<lambda>c. c = sep)) ACC_COMP_NAME_RE)))"
    by (simp only: ACCOUNT_RE_def)
  then obtain t v where s: "s = t @ v" and t: "t \<in> lang ACC_COMP_TYPE_RE"
    and v: "v \<in> lang (Plus (Seq (Class (\<lambda>c. c = sep)) ACC_COMP_NAME_RE))"
    unfolding lang.simps(4) by blast
  from v obtain ws where vw: "v = concat ws" and ne: "ws \<noteq> []"
    and ws: "set ws \<subseteq> lang (Seq (Class (\<lambda>c. c = sep)) ACC_COMP_NAME_RE)"
    unfolding lang_Plus by blast
  from ws have ws': "\<forall>w\<in>set ws. \<exists>n. w = sep # n \<and> name_component n"
    unfolding lang_sep_name by blast
  then have "ws = map ((#) sep) (map tl ws) \<and> list_all name_component (map tl ws)"
    by (induction ws) auto
  moreover have "type_component t" using t by (simp add: lang_type)
  moreover have "map tl ws \<noteq> []" using ne by simp
  ultimately show "\<exists>t ns. s = t @ concat (map ((#) sep) ns) \<and> type_component t \<and> ns \<noteq> []
                \<and> list_all name_component ns"
    using s vw by (intro exI[of _ t] exI[of _ "map tl ws"]) simp
next
  assume "\<exists>t ns. s = t @ concat (map ((#) sep) ns) \<and> type_component t \<and> ns \<noteq> []
                \<and> list_all name_component ns"
  then obtain t ns where s: "s = t @ concat (map ((#) sep) ns)" and t: "type_component t"
    and ne: "ns \<noteq> []" and ns: "list_all name_component ns" by blast
  have "\<forall>w\<in>set (map ((#) sep) ns). w \<in> lang (Seq (Class (\<lambda>c. c = sep)) ACC_COMP_NAME_RE)"
    unfolding lang_sep_name using ns by (simp add: list_all_iff)
  then have sub: "set (map ((#) sep) ns) \<subseteq> lang (Seq (Class (\<lambda>c. c = sep)) ACC_COMP_NAME_RE)"
    by (simp only: subset_iff) blast
  have "map ((#) sep) ns \<noteq> []" using ne by simp
  with sub have "\<exists>ws. concat (map ((#) sep) ns) = concat ws \<and> ws \<noteq> []
        \<and> set ws \<subseteq> lang (Seq (Class (\<lambda>c. c = sep)) ACC_COMP_NAME_RE)"
    by (intro exI[of _ "map ((#) sep) ns"]) simp
  then have v: "concat (map ((#) sep) ns) \<in> lang (Plus (Seq (Class (\<lambda>c. c = sep)) ACC_COMP_NAME_RE))"
    unfolding lang_Plus by simp
  have t': "t \<in> lang ACC_COMP_TYPE_RE" using t by (simp add: lang_type)
  have "\<exists>u w. s = u @ w \<and> u \<in> lang ACC_COMP_TYPE_RE
            \<and> w \<in> lang (Plus (Seq (Class (\<lambda>c. c = sep)) ACC_COMP_NAME_RE))"
    using s t' v by (intro exI[of _ t] exI[of _ "concat (map ((#) sep) ns)"]) simp
  then show "s \<in> lang ACCOUNT_RE"
    unfolding ACCOUNT_RE_def lang.simps(4) by simp
qed

lemma split_nonempty: "split s \<noteq> []"
  by (induction s) (auto split: list.splits)

lemma split_no_sep: "sep \<notin> set t \<Longrightarrow> split (t @ sep # rest) = t # split rest"
  by (induction t) (auto split: list.splits)

lemma split_no_sep_end: "sep \<notin> set t \<Longrightarrow> split t = [t]"
  by (induction t) (auto split: list.splits)

lemma split_join:
  "sep \<notin> set t \<Longrightarrow> \<forall>n\<in>set ns. sep \<notin> set n \<Longrightarrow> split (t @ concat (map ((#) sep) ns)) = t # ns"
proof (induction ns arbitrary: t)
  case Nil
  then show ?case by (simp add: split_no_sep_end)
next
  case (Cons n ns)
  have "split (t @ concat (map ((#) sep) (n # ns))) = t # split (n @ concat (map ((#) sep) ns))"
    using Cons.prems(1) by (simp add: split_no_sep)
  with Cons show ?case by simp
qed

lemma join_split:
  "s = hd (split s) @ concat (map ((#) sep) (tl (split s))) \<and> (\<forall>w\<in>set (split s). sep \<notin> set w)"
proof (induction s)
  case Nil
  show ?case by simp
next
  case (Cons c s)
  obtain w ws where sp: "split s = w # ws" using split_nonempty[of s] by (cases "split s") auto
  with Cons show ?case by auto
qed

lemma sep_not_tail: "tail_char c \<Longrightarrow> c \<noteq> sep"
  by (auto simp: tail_char_def lower_def upper_def digit_def sep_def)

lemma sep_not_upper: "upper c \<Longrightarrow> c \<noteq> sep"
  by (auto simp: upper_def sep_def)

lemma sep_not_digit: "digit c \<Longrightarrow> c \<noteq> sep"
  by (auto simp: digit_def sep_def)

lemma type_component_no_sep: "type_component w \<Longrightarrow> sep \<notin> set w"
  by (cases w) (auto simp: type_component_def list_all_iff dest: sep_not_tail sep_not_upper)

lemma name_component_no_sep: "name_component w \<Longrightarrow> sep \<notin> set w"
  by (cases w)
     (auto simp: name_component_def list_all_iff dest: sep_not_tail sep_not_upper sep_not_digit)

text \<open>
  The \<^verbatim>\<open>isValid\<close> of \<^verbatim>\<open>core/account.js\<close> accepts exactly the strings of the grammar.
\<close>

lemma isValid_iff_grammar: "isValid s \<longleftrightarrow> account_grammar s"
proof
  assume "isValid s"
  then have "s \<in> lang ACCOUNT_RE" by (simp add: isValid_def matches_iff)
  then obtain t ns where s: "s = t @ concat (map ((#) sep) ns)" and t: "type_component t"
    and ne: "ns \<noteq> []" and ns: "list_all name_component ns"
    unfolding lang_ACCOUNT_RE by blast
  have "split s = t # ns"
    unfolding s using t ns
    by (intro split_join) (auto simp: list_all_iff type_component_no_sep name_component_no_sep)
  with t ne ns show "account_grammar s"
    by (cases ns) (simp_all add: account_grammar_def)
next
  assume g: "account_grammar s"
  then obtain t n ns where sp: "split s = t # n # ns" and t: "type_component t"
    and ns: "list_all name_component (n # ns)"
    by (auto simp: account_grammar_def split: list.splits)
  have "s = t @ concat (map ((#) sep) (n # ns))"
    using join_split[of s] sp by simp
  with t ns have "s \<in> lang ACCOUNT_RE"
    unfolding lang_ACCOUNT_RE by (intro exI[of _ t] exI[of _ "n # ns"]) simp
  then show "isValid s" by (simp add: isValid_def matches_iff)
qed

end

